theory Spec2Isabelle
  imports Complex_Main
begin

section \<open>Errors\<close>

text \<open>
  The exceptions that \<^verbatim>\<open>calibration.py\<close> can raise, as values. \<open>ValueError\<close> carries the
  message of the \<^verbatim>\<open>raise\<close> in \<^verbatim>\<open>fake_calibrate\<close> and \<^verbatim>\<open>real_calibrate\<close>;
  \<open>External\<close> is whatever the \<^verbatim>\<open>target_calib\<close> library raises.
\<close>

datatype error =
    ImportError
  | KeyError
  | ValueError string
  | IndexError
  | AttributeError
  | External string

section \<open>numpy arrays and the array store\<close>

text \<open>
  An array is its shape and its elements in row-major order. \<open>zeros\<close> is \<^verbatim>\<open>np.zeros\<close>,
  \<open>astype\<close> is \<^verbatim>\<open>a.astype(...)\<close> (a new array, the element cast a parameter),
  \<open>getitem0\<close> is \<^verbatim>\<open>a[0]\<close>: the sub-array at index 0 of the first axis, an IndexError for a
  0-dimensional array or an empty first axis. \<^verbatim>\<open>a[0]\<close> is a view: \<open>fill0\<close> is what an
  in-place fill of that view does to \<open>a\<close>.
\<close>

record 'a ndarray =
  shape :: "nat list"
  data :: "'a list"

definition zeros :: "nat list \<Rightarrow> ('a::zero) ndarray" where
  "zeros shp = \<lparr>shape = shp, data = replicate (prod_list shp) 0\<rparr>"

definition astype :: "('a \<Rightarrow> 'b) \<Rightarrow> 'a ndarray \<Rightarrow> 'b ndarray" where
  "astype cast a = \<lparr>shape = shape a, data = map cast (data a)\<rparr>"

definition getitem0 :: "'a ndarray \<Rightarrow> error + 'a ndarray" where
  "getitem0 a =
     (case shape a of
        [] \<Rightarrow> Inl IndexError
      | n # rest \<Rightarrow>
          if n = 0 then Inl IndexError
          else Inr \<lparr>shape = rest, data = take (prod_list rest) (data a)\<rparr>)"

definition fill0 :: "(nat \<Rightarrow> 'a) \<Rightarrow> 'a ndarray \<Rightarrow> 'a ndarray" where
  "fill0 f a =
     a\<lparr>data := map f [0..<prod_list (tl (shape a))] @ drop (prod_list (tl (shape a))) (data a)\<rparr>"

text \<open>
  The float32 arrays are objects that are shared: the calibrator keeps a reference to its
  output buffer and stores the same reference into events. They live in a store, addressed
  by naturals; \<open>alloc\<close> is the creation of a new array object.
\<close>

record 'f store =
  nxt :: nat
  cell :: "nat \<Rightarrow> 'f ndarray"

definition alloc :: "'f store \<Rightarrow> 'f ndarray \<Rightarrow> nat \<times> 'f store" where
  "alloc h a = (nxt h, h\<lparr>nxt := Suc (nxt h), cell := (cell h)(nxt h := a)\<rparr>)"

section \<open>The event tree\<close>

text \<open>
  The containers that \<^verbatim>\<open>calibration.py\<close> reads and writes: \<^verbatim>\<open>event.meta\<close>,
  \<^verbatim>\<open>event.r0.tel[t].waveform\<close>, \<^verbatim>\<open>event.r1.tel[t].waveform\<close> and
  \<^verbatim>\<open>event.targetio.tel[t].first_cell_ids\<close>. The raw waveform is a value (the code never
  assigns into it); the calibrated waveform is a reference into the store.

  Modelled from the spec: the declarations of the raw (\<open>r0\<close>) and calibrated (\<open>r1\<close>)
  containers are missing (\<^verbatim>\<open>ctapipe/io/containers.py\<close> declares the older
  \<^verbatim>\<open>dl0\<close>/\<^verbatim>\<open>dl1\<close> tree). The raw-origin container holds the list of telescope ids
  with data and a per-telescope raw container; the calibrated container holds a per-telescope
  calibrated array; an unset waveform is \<open>None\<close>.
\<close>

record 'r R0CameraContainer =
  r0_waveform :: "'r ndarray option"

record 'r R0Container =
  tels_with_data :: "int list"
  r0_tel :: "int \<rightharpoonup> 'r R0CameraContainer"

record R1CameraContainer =
  r1_waveform :: "nat option"

record R1Container =
  r1_tel :: "int \<rightharpoonup> R1CameraContainer"

text \<open>\<^verbatim>\<open>ctapipe_io_targetio/containers.py\<close>: \<^verbatim>\<open>first_cell_ids = Field(None, ...)\<close>.\<close>

record 'c TargetIOCameraContainer =
  first_cell_ids :: "'c option"

record 'c TargetIOContainer =
  tio_tel :: "int \<rightharpoonup> 'c TargetIOCameraContainer"

record ('r, 'c) TargetIODataContainer =
  meta :: "string \<rightharpoonup> string"
  r0 :: "'r R0Container"
  r1 :: "R1Container"
  targetio :: "'c TargetIOContainer"

text \<open>
  Modelled from the spec: the keyed map \<^verbatim>\<open>Map\<close> of \<^verbatim>\<open>ctapipe.core\<close> is missing. The
  per-telescope maps have no fixed size and their entries are created lazily as ids are
  observed: reading a key that is absent stores and returns a default container.
\<close>

definition Map_getitem :: "'v \<Rightarrow> (int \<rightharpoonup> 'v) \<Rightarrow> int \<Rightarrow> 'v \<times> (int \<rightharpoonup> 'v)" where
  "Map_getitem dflt m k = (case m k of Some v \<Rightarrow> (v, m) | None \<Rightarrow> (dflt, m(k \<mapsto> dflt)))"

definition r0_tel_getitem ::
  "('r, 'c) TargetIODataContainer \<Rightarrow> int \<Rightarrow> 'r R0CameraContainer \<times> ('r, 'c) TargetIODataContainer" where
  "r0_tel_getitem event k =
     (let (c, m) = Map_getitem \<lparr>r0_waveform = None\<rparr> (r0_tel (r0 event)) k
      in (c, event\<lparr>r0 := (r0 event)\<lparr>r0_tel := m\<rparr>\<rparr>))"

definition r1_tel_getitem ::
  "('r, 'c) TargetIODataContainer \<Rightarrow> int \<Rightarrow> R1CameraContainer \<times> ('r, 'c) TargetIODataContainer" where
  "r1_tel_getitem event k =
     (let (c, m) = Map_getitem \<lparr>r1_waveform = None\<rparr> (r1_tel (r1 event)) k
      in (c, event\<lparr>r1 := (r1 event)\<lparr>r1_tel := m\<rparr>\<rparr>))"

definition targetio_tel_getitem ::
  "('r, 'c) TargetIODataContainer \<Rightarrow> int \<Rightarrow> 'c TargetIOCameraContainer \<times> ('r, 'c) TargetIODataContainer" where
  "targetio_tel_getitem event k =
     (let (c, m) = Map_getitem \<lparr>first_cell_ids = None\<rparr> (tio_tel (targetio event)) k
      in (c, event\<lparr>targetio := (targetio event)\<lparr>tio_tel := m\<rparr>\<rparr>))"

text \<open>\<^verbatim>\<open>event.r1.tel[k].waveform = w\<close>: look the entry up, then set its attribute.\<close>

definition r1_tel_set_waveform ::
  "('r, 'c) TargetIODataContainer \<Rightarrow> int \<Rightarrow> nat \<Rightarrow> ('r, 'c) TargetIODataContainer" where
  "r1_tel_set_waveform event k w =
     (let (c, event') = r1_tel_getitem event k
      in event'\<lparr>r1 := (r1 event')\<lparr>r1_tel := (r1_tel (r1 event'))(k \<mapsto> c\<lparr>r1_waveform := Some w\<rparr>)\<rparr>\<rparr>)"

text \<open>
  Modelled from the spec: \<^verbatim>\<open>check_r0_exists\<close> is a method of the parent class
  \<^verbatim>\<open>CameraR1Calibrator\<close>, which is missing. It is the precondition helper "does raw data
  exist for this telescope": it answers whether the raw container of the telescope has its
  waveform set.
\<close>

definition check_r0_exists ::
  "('r, 'c) TargetIODataContainer \<Rightarrow> int \<Rightarrow> bool \<times> ('r, 'c) TargetIODataContainer" where
  "check_r0_exists event t =
     (let (c, event') = r0_tel_getitem event t in (r0_waveform c \<noteq> None, event'))"

section \<open>The calibrator\<close>

text \<open>
  The \<^verbatim>\<open>target_calib\<close> module is an external library. \<open>Calibrator\<close> is its constructor
  \<^verbatim>\<open>Calibrator(pedestal_path, tf_path, [pe_path, ff_path])\<close>, which returns a dataset or
  raises. \<open>ApplyEvent\<close> is \<^verbatim>\<open>calibrator.ApplyEvent(samples, fci, out)\<close>, an in-place fill of
  its third argument: it returns the value it leaves in each cell of \<open>out\<close>, by flat index,
  and the exception it raises, if any.
\<close>

record ('r, 'c, 'f, 'd) target_calib =
  Calibrator :: "string option \<Rightarrow> string option \<Rightarrow> string option list \<Rightarrow> error + 'd"
  ApplyEvent :: "'d \<Rightarrow> 'r ndarray \<Rightarrow> 'c option \<Rightarrow> 'f ndarray \<Rightarrow> (nat \<Rightarrow> 'f) \<times> error option"

text \<open>
  What \<^verbatim>\<open>self.calibrate\<close> is bound to: the placeholder of the class, or one of the two
  methods that \<^verbatim>\<open>_load_calib\<close> assigns.
\<close>

datatype bound_method = Placeholder | Fake_calibrate | Real_calibrate

text \<open>
  The four traits are \<^verbatim>\<open>Unicode('', allow_none=True)\<close>: a string or \<^verbatim>\<open>None\<close>.
\<close>

record ('r, 'c, 'f, 'd) TargetIOR1Calibrator =
  pedestal_path :: "string option"
  tf_path :: "string option"
  pe_path :: "string option"
  ff_path :: "string option"
  r1_wf :: "nat option"
  tc :: "('r, 'c, 'f, 'd) target_calib"
  calibrator :: "'d option"
  telid :: int
  calibrate_attr :: bound_method

text \<open>Python's truth value of a string or \<^verbatim>\<open>None\<close>.\<close>

definition truthy :: "string option \<Rightarrow> bool" where
  "truthy p = (case p of None \<Rightarrow> False | Some s \<Rightarrow> s \<noteq> [])"

definition load_calib ::
  "('r, 'c, 'f, 'd) TargetIOR1Calibrator \<Rightarrow> error + ('r, 'c, 'f, 'd) TargetIOR1Calibrator" where
  "load_calib self =
     (if truthy (pedestal_path self) then
        (case Calibrator (tc self) (pedestal_path self) (tf_path self) [pe_path self, ff_path self] of
           Inl e \<Rightarrow> Inl e
         | Inr d \<Rightarrow> Inr (self\<lparr>calibrator := Some d, calibrate_attr := Real_calibrate\<rparr>))
      else Inr (self\<lparr>calibrate_attr := Fake_calibrate\<rparr>))"

text \<open>
  \<^verbatim>\<open>__init__\<close>: the traits come from the configuration, \<^verbatim>\<open>import target_calib\<close> gives
  the module or fails.
\<close>

definition init ::
  "('r, 'c, 'f, 'd) target_calib option \<Rightarrow> string option \<Rightarrow> string option \<Rightarrow> string option \<Rightarrow>
   string option \<Rightarrow> error + ('r, 'c, 'f, 'd) TargetIOR1Calibrator" where
  "init import_target_calib pedestal tf pe ff =
     (case import_target_calib of
        None \<Rightarrow> Inl ImportError
      | Some target_calib \<Rightarrow>
          load_calib
            \<lparr>pedestal_path = pedestal, tf_path = tf, pe_path = pe, ff_path = ff,
             r1_wf = None, tc = target_calib, calibrator = None, telid = 0,
             calibrate_attr = Placeholder\<rparr>)"

type_synonym ('r, 'c, 'f, 'd) outcome =
  "error option \<times> ('r, 'c, 'f, 'd) TargetIOR1Calibrator \<times> ('r, 'c) TargetIODataContainer \<times> 'f store"

definition non_targetio :: string where
  "non_targetio = ''Using TargetioR1Calibrator to calibrate a non-targetio event.''"

definition fake_calibrate ::
  "('r \<Rightarrow> 'f) \<Rightarrow> ('r, 'c, 'f, 'd) TargetIOR1Calibrator \<Rightarrow> ('r, 'c) TargetIODataContainer \<Rightarrow>
   'f store \<Rightarrow> ('r, 'c, 'f, 'd) outcome" where
  "fake_calibrate float32 self event h =
     (case meta event ''origin'' of
        None \<Rightarrow> (Some KeyError, self, event, h)
      | Some origin \<Rightarrow>
          if origin \<noteq> ''targetio'' then (Some (ValueError non_targetio), self, event, h)
          else
            (let (ok, event1) = check_r0_exists event (telid self) in
             if ok then
               (let (c, event2) = r0_tel_getitem event1 (telid self) in
                case r0_waveform c of
                  None \<Rightarrow> (Some AttributeError, self, event2, h)
                | Some samples \<Rightarrow>
                    (let (a, h') = alloc h (astype float32 samples)
                     in (None, self, r1_tel_set_waveform event2 (telid self) a, h')))
             else (None, self, event1, h)))"

definition real_calibrate ::
  "('r, 'c, 'f::zero, 'd) TargetIOR1Calibrator \<Rightarrow> ('r, 'c) TargetIODataContainer \<Rightarrow>
   'f store \<Rightarrow> ('r, 'c, 'f, 'd) outcome" where
  "real_calibrate self event h =
     (case meta event ''origin'' of
        None \<Rightarrow> (Some KeyError, self, event, h)
      | Some origin \<Rightarrow>
          if origin \<noteq> ''targetio'' then (Some (ValueError non_targetio), self, event, h)
          else
            (let (ok, event1) = check_r0_exists event (telid self) in
             if ok then
               (let (c, event2) = r0_tel_getitem event1 (telid self) in
                case r0_waveform c of
                  None \<Rightarrow> (Some AttributeError, self, event2, h)
                | Some samples \<Rightarrow>
                    (let (buf, h1) =
                           (case r1_wf self of
                              None \<Rightarrow> alloc h (zeros (shape samples))
                            | Some b \<Rightarrow> (b, h));
                         self1 = self\<lparr>r1_wf := Some buf\<rparr>;
                         (t, event3) = targetio_tel_getitem event2 (telid self1);
                         fci = first_cell_ids t
                     in case calibrator self1 of
                          None \<Rightarrow> (Some AttributeError, self1, event3, h1)
                        | Some d \<Rightarrow>
                            (case getitem0 samples of
                               Inl e \<Rightarrow> (Some e, self1, event3, h1)
                             | Inr samples0 \<Rightarrow>
                                 (case getitem0 (cell h1 buf) of
                                    Inl e \<Rightarrow> (Some e, self1, event3, h1)
                                  | Inr out \<Rightarrow>
                                      (let (filled, raised) = ApplyEvent (tc self1) d samples0 fci out;
                                           h2 = h1\<lparr>cell := (cell h1)(buf := fill0 filled (cell h1 buf))\<rparr>
                                       in case raised of
                                            Some e \<Rightarrow> (Some e, self1, event3, h2)
                                          | None \<Rightarrow>
                                              (None, self1,
                                               r1_tel_set_waveform event3 (telid self1) buf, h2))))))
             else (None, self, event1, h)))"

text \<open>
  In both methods the branch for an unset waveform after a passed check is never taken
  (the check is that the waveform is set); it stands for Python's error on \<^verbatim>\<open>None\<close>.

  \<^verbatim>\<open>self.calibrate(event)\<close>: the call goes to whatever the attribute is bound to.
\<close>

definition calibrate ::
  "('r \<Rightarrow> 'f) \<Rightarrow> ('r, 'c, 'f::zero, 'd) TargetIOR1Calibrator \<Rightarrow> ('r, 'c) TargetIODataContainer \<Rightarrow>
   'f store \<Rightarrow> ('r, 'c, 'f, 'd) outcome" where
  "calibrate float32 self event h =
     (case calibrate_attr self of
        Placeholder \<Rightarrow> (None, self, event, h)
      | Fake_calibrate \<Rightarrow> fake_calibrate float32 self event h
      | Real_calibrate \<Rightarrow> real_calibrate self event h)"

text \<open>
  The calls \<^verbatim>\<open>calibrate(event)\<close> of one calibrator instance on a sequence of events, one
  after the other, the store shared. A call that raises does not end the sequence (the
  caller may catch the exception and go on), so every state the calibrator can reach by
  calls of \<^verbatim>\<open>calibrate\<close> is the result of some sequence.
\<close>

fun calibrate_events ::
  "('r \<Rightarrow> 'f) \<Rightarrow> ('r, 'c, 'f::zero, 'd) TargetIOR1Calibrator \<Rightarrow> 'f store \<Rightarrow>
   ('r, 'c) TargetIODataContainer list \<Rightarrow> ('r, 'c, 'f, 'd) TargetIOR1Calibrator \<times> 'f store" where
  "calibrate_events float32 self h [] = (self, h)"
| "calibrate_events float32 self h (event # events) =
     (case calibrate float32 self event h of
        (e, self', event', h') \<Rightarrow> calibrate_events float32 self' h' events)"

section \<open>Concrete inputs\<close>

text \<open>
  A stand-in for the external library, used to run the calibrator on concrete events: the
  dataset is one pedestal value, the constructor always succeeds with the pedestal 100, and
  \<open>ApplyEvent\<close> subtracts the pedestal from each sample it is given (and writes 0 where it
  is given no sample).
\<close>

definition mock_target_calib :: "(int, nat list, real, real) target_calib" where
  "mock_target_calib =
     \<lparr>Calibrator = (\<lambda>pedestal tf aux. Inr 100),
      ApplyEvent = (\<lambda>ped samples fci out.
        (\<lambda>i. case drop i (data samples) of [] \<Rightarrow> 0 | x # _ \<Rightarrow> real_of_int x - ped, None))\<rparr>"

definition empty_store :: "real store" where
  "empty_store = \<lparr>nxt = 0, cell = (\<lambda>a. \<lparr>shape = [], data = []\<rparr>)\<rparr>"

text \<open>The calibrator that \<open>init\<close> builds with no pedestal path, and with one.\<close>

definition identity_calibrator :: "(int, nat list, real, real) TargetIOR1Calibrator" where
  "identity_calibrator =
     \<lparr>pedestal_path = Some [], tf_path = Some ''tf.tcal'', pe_path = Some [], ff_path = None,
      r1_wf = None, tc = mock_target_calib, calibrator = None, telid = 0,
      calibrate_attr = Fake_calibrate\<rparr>"

definition correction_calibrator :: "(int, nat list, real, real) TargetIOR1Calibrator" where
  "correction_calibrator =
     \<lparr>pedestal_path = Some ''ped.tcal'', tf_path = Some [], pe_path = Some [], ff_path = Some [],
      r1_wf = None, tc = mock_target_calib, calibrator = Some 100, telid = 0,
      calibrate_attr = Real_calibrate\<rparr>"

text \<open>
  Events: one of origin targetio with a raw waveform of shape [2, 2] for telescope 0 (and
  raw data for telescope 1), one with a raw waveform of shape [3, 1], one of origin
  targetio with no raw data, and one of another origin.
\<close>

definition event_2x2 :: "(int, nat list) TargetIODataContainer" where
  "event_2x2 =
     \<lparr>meta = [''origin'' \<mapsto> ''targetio''],
      r0 = \<lparr>tels_with_data = [0, 1],
            r0_tel = [0 \<mapsto> \<lparr>r0_waveform = Some \<lparr>shape = [2, 2], data = [101, 102, 103, 104]\<rparr>\<rparr>,
                      1 \<mapsto> \<lparr>r0_waveform = Some \<lparr>shape = [1, 1], data = [7]\<rparr>\<rparr>]\<rparr>,
      r1 = \<lparr>r1_tel = Map.empty\<rparr>,
      targetio = \<lparr>tio_tel = [0 \<mapsto> \<lparr>first_cell_ids = Some [0, 0]\<rparr>]\<rparr>\<rparr>"

definition event_3x1 :: "(int, nat list) TargetIODataContainer" where
  "event_3x1 =
     \<lparr>meta = [''origin'' \<mapsto> ''targetio''],
      r0 = \<lparr>tels_with_data = [0],
            r0_tel = [0 \<mapsto> \<lparr>r0_waveform = Some \<lparr>shape = [3, 1], data = [201, 202, 203]\<rparr>\<rparr>]\<rparr>,
      r1 = \<lparr>r1_tel = Map.empty\<rparr>,
      targetio = \<lparr>tio_tel = [0 \<mapsto> \<lparr>first_cell_ids = Some [0, 0, 0]\<rparr>]\<rparr>\<rparr>"

definition event_no_r0 :: "(int, nat list) TargetIODataContainer" where
  "event_no_r0 =
     \<lparr>meta = [''origin'' \<mapsto> ''targetio''],
      r0 = \<lparr>tels_with_data = [], r0_tel = Map.empty\<rparr>,
      r1 = \<lparr>r1_tel = Map.empty\<rparr>,
      targetio = \<lparr>tio_tel = Map.empty\<rparr>\<rparr>"

definition event_hessio :: "(int, nat list) TargetIODataContainer" where
  "event_hessio =
     \<lparr>meta = [''origin'' \<mapsto> ''hessio''],
      r0 = \<lparr>tels_with_data = [0],
            r0_tel = [0 \<mapsto> \<lparr>r0_waveform = Some \<lparr>shape = [1, 2], data = [5, 6]\<rparr>\<rparr>]\<rparr>,
      r1 = \<lparr>r1_tel = Map.empty\<rparr>,
      targetio = \<lparr>tio_tel = Map.empty\<rparr>\<rparr>"

text \<open>
  A second event with a raw waveform of shape [2, 2], and the outcomes of three calls of the
  calibrator with a pedestal path: on \<open>event_2x2\<close> first, and then either on
  \<open>event_3x1\<close> or on \<open>event_2x2_b\<close>.
\<close>

definition event_2x2_b :: "(int, nat list) TargetIODataContainer" where
  "event_2x2_b =
     \<lparr>meta = [''origin'' \<mapsto> ''targetio''],
      r0 = \<lparr>tels_with_data = [0],
            r0_tel = [0 \<mapsto> \<lparr>r0_waveform = Some \<lparr>shape = [2, 2], data = [111, 112, 113, 114]\<rparr>\<rparr>]\<rparr>,
      r1 = \<lparr>r1_tel = Map.empty\<rparr>,
      targetio = \<lparr>tio_tel = [0 \<mapsto> \<lparr>first_cell_ids = Some [5, 5]\<rparr>]\<rparr>\<rparr>"

definition after_2x2 :: "(int, nat list, real, real) outcome" where
  "after_2x2 = calibrate real_of_int correction_calibrator event_2x2 empty_store"

definition after_3x1 :: "(int, nat list, real, real) outcome" where
  "after_3x1 = calibrate real_of_int (fst (snd after_2x2)) event_3x1 (snd (snd (snd after_2x2)))"

definition after_2x2_b :: "(int, nat list, real, real) outcome" where
  "after_2x2_b = calibrate real_of_int (fst (snd after_2x2)) event_2x2_b (snd (snd (snd after_2x2)))"

text \<open>
  The store after the first call, once a consumer of the first event has written 7 into
  channel 1 of its calibrated waveform (the array at reference 0, which is the calibrator's
  buffer), and the outcome of the next call in that store.
\<close>

definition written_store :: "real store" where
  "written_store =
     (snd (snd (snd after_2x2)))
       \<lparr>cell := (cell (snd (snd (snd after_2x2))))(0 := \<lparr>shape = [2, 2], data = [1, 2, 7, 7]\<rparr>)\<rparr>"

definition after_write :: "(int, nat list, real, real) outcome" where
  "after_write = calibrate real_of_int (fst (snd after_2x2)) event_2x2_b written_store"

section \<open>The container model\<close>

text \<open>
  The declarations of \<^verbatim>\<open>ctapipe/io/containers.py\<close> and
  \<^verbatim>\<open>ctapipe_io_targetio/containers.py\<close> give every field a default: a number or
  \<^verbatim>\<open>None\<close>, a class object (\<^verbatim>\<open>Time\<close>, \<^verbatim>\<open>MCHeaderContainer\<close>), an empty list, an
  empty \<^verbatim>\<open>Map\<close> with its factory, or an instance of another container class. Numbers,
  \<^verbatim>\<open>None\<close> and class objects are atoms; lists, maps and containers are mutable objects,
  which live in an object store (a list of objects, an address is an index).
\<close>

datatype atom = PyNone | PyInt int | PyClass string

datatype dflt =
    Atom atom
  | EmptyList
  | EmptyMap "string option"
  | Instance "(string \<times> dflt) list"

datatype val = Val atom | Ref nat

datatype obj =
    ListObj "val list"
  | MapObj "string option" "(val \<times> val) list"
  | ContainerObj "(string \<times> val) list"

text \<open>
  Modelled from the spec: the class \<^verbatim>\<open>Container\<close> of \<^verbatim>\<open>ctapipe.core\<close> (its constructor
  and \<^verbatim>\<open>reset\<close>) is missing. Constructing a container instantiates all declared fields
  with their defaults, containers recursively, and gives every mutable default (list, map,
  nested container) a fresh instance of its own: \<open>instantiate\<close> allocates a new object for
  each. \<open>instantiate (Instance fs)\<close> is the construction of a container whose class
  declares the fields \<open>fs\<close>.
\<close>

fun instantiate :: "dflt \<Rightarrow> obj list \<Rightarrow> val \<times> obj list"
  and instantiate_fields :: "(string \<times> dflt) list \<Rightarrow> obj list \<Rightarrow> (string \<times> val) list \<times> obj list" where
  "instantiate (Atom a) h = (Val a, h)"
| "instantiate EmptyList h = (Ref (length h), h @ [ListObj []])"
| "instantiate (EmptyMap f) h = (Ref (length h), h @ [MapObj f []])"
| "instantiate (Instance fs) h =
     (case instantiate_fields fs h of (vs, h') \<Rightarrow> (Ref (length h'), h' @ [ContainerObj vs]))"
| "instantiate_fields [] h = ([], h)"
| "instantiate_fields ((n, d) # fs) h =
     (case instantiate d h of (v, h1) \<Rightarrow>
        (case instantiate_fields fs h1 of (vs, h2) \<Rightarrow> ((n, v) # vs, h2)))"

text \<open>
  A value is the declared default \<open>d\<close> in a store when it is that atom, or a reference to
  an empty list, to an empty map with that factory, or to a container whose fields are, in
  order, the declared defaults. \<open>owned\<close> lists the mutable objects that a value holding a
  default is made of: the object itself and those of its fields.
\<close>

fun is_default :: "obj list \<Rightarrow> val \<Rightarrow> dflt \<Rightarrow> bool"
  and fields_default :: "obj list \<Rightarrow> (string \<times> val) list \<Rightarrow> (string \<times> dflt) list \<Rightarrow> bool" where
  "is_default h v (Atom a) = (v = Val a)"
| "is_default h v EmptyList =
     (case v of Ref r \<Rightarrow> r < length h \<and> h ! r = ListObj [] | Val _ \<Rightarrow> False)"
| "is_default h v (EmptyMap f) =
     (case v of Ref r \<Rightarrow> r < length h \<and> h ! r = MapObj f [] | Val _ \<Rightarrow> False)"
| "is_default h v (Instance fs) =
     (case v of
        Ref r \<Rightarrow> r < length h \<and>
          (case h ! r of ContainerObj vs \<Rightarrow> fields_default h vs fs | _ \<Rightarrow> False)
      | Val _ \<Rightarrow> False)"
| "fields_default h vs [] = (vs = [])"
| "fields_default h vs ((n, d) # fs) =
     (case vs of
        [] \<Rightarrow> False
      | (m, v) # vs' \<Rightarrow> m = n \<and> is_default h v d \<and> fields_default h vs' fs)"

fun owned :: "obj list \<Rightarrow> val \<Rightarrow> dflt \<Rightarrow> nat list"
  and owned_fields :: "obj list \<Rightarrow> (string \<times> val) list \<Rightarrow> (string \<times> dflt) list \<Rightarrow> nat list" where
  "owned h v (Atom a) = []"
| "owned h v EmptyList = (case v of Ref r \<Rightarrow> [r] | Val _ \<Rightarrow> [])"
| "owned h v (EmptyMap f) = (case v of Ref r \<Rightarrow> [r] | Val _ \<Rightarrow> [])"
| "owned h v (Instance fs) =
     (case v of
        Ref r \<Rightarrow> r # (if r < length h then (case h ! r of ContainerObj vs \<Rightarrow> owned_fields h vs fs | _ \<Rightarrow> []) else [])
      | Val _ \<Rightarrow> [])"
| "owned_fields h vs [] = []"
| "owned_fields h vs ((n, d) # fs) =
     (case vs of
        [] \<Rightarrow> []
      | (m, v) # vs' \<Rightarrow> owned h v d @ owned_fields h vs' fs)"

text \<open>
  Modelled from the spec: resetting a container restores every field to a freshly
  constructed default; reading a declared field (\<open>getattr\<close>) returns its value.
\<close>

definition reset :: "(string \<times> dflt) list \<Rightarrow> nat \<Rightarrow> obj list \<Rightarrow> obj list" where
  "reset fs a h = (case instantiate_fields fs h of (vs, h') \<Rightarrow> h'[a := ContainerObj vs])"

definition getattr :: "obj list \<Rightarrow> nat \<Rightarrow> string \<Rightarrow> val option" where
  "getattr h a n =
     (if a < length h then (case h ! a of ContainerObj vs \<Rightarrow> map_of vs n | _ \<Rightarrow> None)
      else None)"

text \<open>
  The fields that the container classes of the source declare, with their defaults
  (descriptions and units left out). \<^verbatim>\<open>TargetIODataContainer\<close> inherits the fields of
  \<^verbatim>\<open>DataContainer\<close> and adds \<^verbatim>\<open>targetio\<close>.
\<close>

definition TargetIOCameraContainer_declared :: "(string \<times> dflt) list" where
  "TargetIOCameraContainer_declared = [(''first_cell_ids'', Atom PyNone)]"

definition TargetIOContainer_declared :: "(string \<times> dflt) list" where
  "TargetIOContainer_declared = [(''tel'', EmptyMap (Some ''TargetIOCameraContainer''))]"

definition InstrumentContainer_declared :: "(string \<times> dflt) list" where
  "InstrumentContainer_declared =
     [(''pixel_pos'', EmptyMap (Some ''ndarray'')),
      (''optical_foclen'', EmptyMap (Some ''ndarray'')),
      (''mirror_dish_area'', EmptyMap (Some ''float'')),
      (''mirror_numtiles'', EmptyMap (Some ''int'')),
      (''tel_pos'', EmptyMap (Some ''ndarray'')),
      (''num_pixels'', EmptyMap (Some ''int'')),
      (''num_samples'', EmptyMap (Some ''int'')),
      (''num_channels'', EmptyMap (Some ''int''))]"

definition CalibratedContainer_declared :: "(string \<times> dflt) list" where
  "CalibratedContainer_declared = [(''tel'', EmptyMap (Some ''CalibratedCameraContainer''))]"

definition RawDataContainer_declared :: "(string \<times> dflt) list" where
  "RawDataContainer_declared =
     [(''run_id'', Atom (PyInt (- 1))),
      (''event_id'', Atom (PyInt (- 1))),
      (''tels_with_data'', EmptyList),
      (''tel'', EmptyMap (Some ''RawCameraContainer''))]"

definition MCEventContainer_declared :: "(string \<times> dflt) list" where
  "MCEventContainer_declared =
     [(''energy'', Atom (PyInt 0)),
      (''alt'', Atom (PyInt 0)),
      (''az'', Atom (PyInt 0)),
      (''core_x'', Atom (PyInt 0)),
      (''core_y'', Atom (PyInt 0)),
      (''h_first_int'', Atom (PyInt 0)),
      (''tel'', EmptyMap (Some ''MCCameraEventContainer''))]"

definition CentralTriggerContainer_declared :: "(string \<times> dflt) list" where
  "CentralTriggerContainer_declared =
     [(''gps_time'', Atom (PyClass ''Time'')),
      (''tels_with_trigger'', EmptyList)]"

definition ReconstructedContainer_declared :: "(string \<times> dflt) list" where
  "ReconstructedContainer_declared =
     [(''shower'', EmptyMap (Some ''ReconstructedShowerContainer'')),
      (''energy'', EmptyMap (Some ''ReconstructedEnergyContainer'')),
      (''classification'', EmptyMap (Some ''ParticleClassificationContainer''))]"

definition DataContainer_declared :: "(string \<times> dflt) list" where
  "DataContainer_declared =
     [(''dl0'', Instance RawDataContainer_declared),
      (''dl1'', Instance CalibratedContainer_declared),
      (''dl2'', Instance ReconstructedContainer_declared),
      (''mc'', Instance MCEventContainer_declared),
      (''mcheader'', Atom (PyClass ''MCHeaderContainer'')),
      (''trig'', Instance CentralTriggerContainer_declared),
      (''count'', Atom (PyInt 0)),
      (''inst'', Instance InstrumentContainer_declared)]"

definition TargetIODataContainer_declared :: "(string \<times> dflt) list" where
  "TargetIODataContainer_declared =
     DataContainer_declared @ [(''targetio'', Instance TargetIOContainer_declared)]"

text \<open>Two \<^verbatim>\<open>TargetIODataContainer\<close> instances, constructed one after the other.\<close>

definition first_event :: "val \<times> obj list" where
  "first_event = instantiate (Instance TargetIODataContainer_declared) []"

definition second_event :: "val \<times> obj list" where
  "second_event = instantiate (Instance TargetIODataContainer_declared) (snd first_event)"

section \<open>Properties of the calibrator\<close>

subsection \<open>What a call leaves of the calibrator\<close>

lemmas event_defs = check_r0_exists_def r0_tel_getitem_def r1_tel_getitem_def
  targetio_tel_getitem_def r1_tel_set_waveform_def Map_getitem_def

lemma fake_calibrate_self:
  "fake_calibrate float32 self event h = (e, self', event', h') \<Longrightarrow> self' = self"
  by (auto simp: fake_calibrate_def Let_def split: option.splits if_splits prod.splits)

lemma real_calibrate_self:
  "real_calibrate self event h = (e, self', event', h') \<Longrightarrow> self' = self\<lparr>r1_wf := r1_wf self'\<rparr>"
  by (auto simp: real_calibrate_def Let_def split: option.splits if_splits prod.splits sum.splits)

lemma calibrate_self:
  "calibrate float32 self event h = (e, self', event', h') \<Longrightarrow> self' = self\<lparr>r1_wf := r1_wf self'\<rparr>"
  by (auto simp: calibrate_def split: bound_method.splits dest: fake_calibrate_self real_calibrate_self)

lemma calibrate_events_self:
  "calibrate_events float32 self h events = (self', h') \<Longrightarrow> \<exists>b. self' = self\<lparr>r1_wf := b\<rparr>"
proof (induction events arbitrary: self h)
  case Nil
  then have "self' = self\<lparr>r1_wf := r1_wf self\<rparr>" by simp
  then show ?case ..
next
  case (Cons event events)
  obtain e self1 event1 h1 where c: "calibrate float32 self event h = (e, self1, event1, h1)"
    by (cases "calibrate float32 self event h") auto
  from Cons.prems c have "calibrate_events float32 self1 h1 events = (self', h')" by simp
  from Cons.IH[OF this] obtain b where "self' = self1\<lparr>r1_wf := b\<rparr>" ..
  moreover from calibrate_self[OF c] have "self1 = self\<lparr>r1_wf := r1_wf self1\<rparr>" .
  ultimately have "self' = self\<lparr>r1_wf := r1_wf self1, r1_wf := b\<rparr>" by simp
  then have "self' = self\<lparr>r1_wf := b\<rparr>" by simp
  then show ?case ..
qed

lemma calibrate_events_fields:
  assumes "calibrate_events float32 self h events = (self', h')"
  shows "calibrate_attr self' = calibrate_attr self" and "telid self' = telid self"
    and "calibrator self' = calibrator self" and "tc self' = tc self"
proof -
  from calibrate_events_self[OF assms] obtain b where "self' = self\<lparr>r1_wf := b\<rparr>" ..
  then show "calibrate_attr self' = calibrate_attr self" and "telid self' = telid self"
    and "calibrator self' = calibrator self" and "tc self' = tc self"
    by simp_all
qed

lemma init_attr:
  "init (Some m) pedestal tf pe ff = Inr self \<Longrightarrow>
     calibrate_attr self = (if truthy pedestal then Real_calibrate else Fake_calibrate) \<and>
     telid self = 0 \<and> r1_wf self = None \<and> tc self = m \<and>
     (calibrate_attr self = Real_calibrate \<longrightarrow> calibrator self \<noteq> None)"
  by (auto simp: init_def load_calib_def split: if_splits sum.splits)

lemma init_identity_calibrator:
  "init (Some mock_target_calib) (Some []) (Some ''tf.tcal'') (Some []) None = Inr identity_calibrator"
  by (simp add: init_def load_calib_def truthy_def identity_calibrator_def)

lemma init_correction_calibrator:
  "init (Some mock_target_calib) (Some ''ped.tcal'') (Some []) (Some []) (Some [])
     = Inr correction_calibrator"
  by (simp add: init_def load_calib_def truthy_def correction_calibrator_def mock_target_calib_def)

subsection \<open>Origin guard\<close>

text \<open>
  C4. For every event whose origin tag is not \<^verbatim>\<open>'targetio'\<close>, \<^verbatim>\<open>calibrate\<close> in either
  behavior raises the ValueError of the origin check (the spec's OriginMismatchError) and
  writes nothing: the calibrator, the event (so its \<open>r1\<close> per-telescope map) and the store
  are what they were before the call.
\<close>

theorem origin_guard:
  assumes "meta event ''origin'' = Some origin" and "origin \<noteq> ''targetio''"
    and "calibrate_attr self = Fake_calibrate \<or> calibrate_attr self = Real_calibrate"
  shows "calibrate float32 self event h = (Some (ValueError non_targetio), self, event, h)"
  using assms by (auto simp: calibrate_def fake_calibrate_def real_calibrate_def)

theorem origin_guard_witness:
  "meta event_hessio ''origin'' = Some ''hessio'' \<and> ''hessio'' \<noteq> ''targetio'' \<and>
   calibrate_attr identity_calibrator = Fake_calibrate \<and>
   calibrate_attr correction_calibrator = Real_calibrate \<and>
   calibrate real_of_int identity_calibrator event_hessio empty_store
     = (Some (ValueError non_targetio), identity_calibrator, event_hessio, empty_store) \<and>
   calibrate real_of_int correction_calibrator event_hessio empty_store
     = (Some (ValueError non_targetio), correction_calibrator, event_hessio, empty_store)"
proof -
  have m: "meta event_hessio ''origin'' = Some ''hessio''" by (simp add: event_hessio_def)
  have n: "''hessio'' \<noteq> ''targetio''" by simp
  have f: "calibrate_attr identity_calibrator = Fake_calibrate"
    by (simp add: identity_calibrator_def)
  have r: "calibrate_attr correction_calibrator = Real_calibrate"
    by (simp add: correction_calibrator_def)
  from origin_guard[OF m n disjI1[OF f]] origin_guard[OF m n disjI2[OF r]] m n f r
  show ?thesis by simp
qed

subsection \<open>Identity Behavior\<close>

text \<open>
  C1. A calibrator constructed with no pedestal path, after any calls it has served, takes
  an event of origin \<^verbatim>\<open>'targetio'\<close> whose raw container holds a waveform \<open>W\<close> for
  telescope 0 and returns without error; afterwards \<^verbatim>\<open>event.r1.tel[0].waveform\<close> is an
  array of the shape of \<open>W\<close> whose elements are those of \<open>W\<close>, each cast to float32.
\<close>

theorem identity_behavior:
  assumes "init (Some m) pedestal tf pe ff = Inr self0"
    and "\<not> truthy pedestal"
    and "calibrate_events float32 self0 h0 events = (self, h)"
    and "meta event ''origin'' = Some ''targetio''"
    and "r0_tel (r0 event) 0 = Some c" and "r0_waveform c = Some W"
  shows "\<exists>event' h' a.
           calibrate float32 self event h = (None, self, event', h') \<and>
           r1_tel (r1 event') 0 = Some \<lparr>r1_waveform = Some a\<rparr> \<and>
           shape (cell h' a) = shape W \<and>
           data (cell h' a) = map float32 (data W)"
proof -
  from init_attr[OF assms(1)] assms(2)
  have "calibrate_attr self0 = Fake_calibrate" and "telid self0 = 0" by auto
  with calibrate_events_fields[OF assms(3)]
  have a': "calibrate_attr self = Fake_calibrate" and t': "telid self = 0" by auto
  have "calibrate float32 self event h =
          (None, self, r1_tel_set_waveform (snd (r0_tel_getitem event 0)) 0 (nxt h),
           snd (alloc h (astype float32 W)))"
    using assms(4-6) a' t'
    by (simp add: calibrate_def fake_calibrate_def check_r0_exists_def r0_tel_getitem_def
        Map_getitem_def alloc_def Let_def)
  moreover have "r1_tel (r1 (r1_tel_set_waveform (snd (r0_tel_getitem event 0)) 0 (nxt h))) 0
                 = Some \<lparr>r1_waveform = Some (nxt h)\<rparr>"
    by (simp add: event_defs Let_def split: option.splits)
  moreover have "cell (snd (alloc h (astype float32 W))) (nxt h) = astype float32 W"
    by (simp add: alloc_def)
  ultimately show ?thesis
    by (simp add: astype_def)
qed

theorem identity_behavior_witness:
  "init (Some mock_target_calib) (Some []) (Some ''tf.tcal'') (Some []) None = Inr identity_calibrator \<and>
   \<not> truthy (Some []) \<and>
   calibrate_events real_of_int identity_calibrator empty_store [event_no_r0]
     = (identity_calibrator, empty_store) \<and>
   meta event_2x2 ''origin'' = Some ''targetio'' \<and>
   r0_tel (r0 event_2x2) 0 = Some \<lparr>r0_waveform = Some \<lparr>shape = [2, 2], data = [101, 102, 103, 104]\<rparr>\<rparr> \<and>
   (\<exists>event' h' a.
      calibrate real_of_int identity_calibrator event_2x2 empty_store
        = (None, identity_calibrator, event', h') \<and>
      r1_tel (r1 event') 0 = Some \<lparr>r1_waveform = Some a\<rparr> \<and>
      shape (cell h' a) = [2, 2] \<and>
      data (cell h' a) = [101, 102, 103, 104])"
proof -
  have 1: "init (Some mock_target_calib) (Some []) (Some ''tf.tcal'') (Some []) None
             = Inr identity_calibrator"
    by (rule init_identity_calibrator)
  have 2: "\<not> truthy (Some [])" by (simp add: truthy_def)
  have 3: "calibrate_events real_of_int identity_calibrator empty_store [event_no_r0]
             = (identity_calibrator, empty_store)"
    by (simp add: calibrate_def fake_calibrate_def identity_calibrator_def event_no_r0_def
        event_defs)
  have 4: "meta event_2x2 ''origin'' = Some ''targetio''" by (simp add: event_2x2_def)
  have 5: "r0_tel (r0 event_2x2) 0
             = Some \<lparr>r0_waveform = Some \<lparr>shape = [2, 2], data = [101, 102, 103, 104]\<rparr>\<rparr>"
    by (simp add: event_2x2_def)
  have 6: "r0_waveform \<lparr>r0_waveform = Some \<lparr>shape = [2, 2], data = [101, 102, 103, 104::int]\<rparr>\<rparr>
             = Some \<lparr>shape = [2, 2], data = [101, 102, 103, 104]\<rparr>"
    by simp
  from identity_behavior[OF 1 2 3 4 5 6] 1 2 3 4 5
  show ?thesis by simp
qed


subsection \<open>Missing raw data\<close>

text \<open>
  C2, as stated, fails: an event of origin \<^verbatim>\<open>'targetio'\<close> with no raw data for
  telescope 0 makes the raw data check fail, and \<^verbatim>\<open>calibrate\<close> returns normally in both
  behaviors, with no error at all.
\<close>

theorem missing_data_counterexample:
  "meta event_no_r0 ''origin'' = Some ''targetio'' \<and>
   \<not> fst (check_r0_exists event_no_r0 0) \<and>
   fst (calibrate real_of_int identity_calibrator event_no_r0 empty_store) = None \<and>
   fst (calibrate real_of_int correction_calibrator event_no_r0 empty_store) = None"
  by (simp add: calibrate_def fake_calibrate_def real_calibrate_def identity_calibrator_def
      correction_calibrator_def event_no_r0_def event_defs)

text \<open>
  C2, amended. For every event of origin \<^verbatim>\<open>'targetio'\<close>, when the raw data check fails
  for the calibrator's telescope, \<^verbatim>\<open>calibrate\<close> in either behavior returns without an
  error and skips the event: the calibrator and the store are unchanged, and so is the
  calibrated container (the event is what the check left of it).
\<close>

theorem missing_data_skipped:
  assumes "meta event ''origin'' = Some ''targetio''"
    and "\<not> fst (check_r0_exists event (telid self))"
    and "calibrate_attr self = Fake_calibrate \<or> calibrate_attr self = Real_calibrate"
  shows "calibrate float32 self event h = (None, self, snd (check_r0_exists event (telid self)), h)
         \<and> r1 (snd (check_r0_exists event (telid self))) = r1 event"
  using assms
  by (auto simp: calibrate_def fake_calibrate_def real_calibrate_def event_defs Let_def
        split: option.splits bound_method.splits prod.splits)

theorem missing_data_skipped_witness:
  "meta event_no_r0 ''origin'' = Some ''targetio'' \<and>
   \<not> fst (check_r0_exists event_no_r0 (telid correction_calibrator)) \<and>
   calibrate_attr correction_calibrator = Real_calibrate \<and>
   calibrate real_of_int correction_calibrator event_no_r0 empty_store
     = (None, correction_calibrator,
        snd (check_r0_exists event_no_r0 (telid correction_calibrator)), empty_store) \<and>
   r1 (snd (check_r0_exists event_no_r0 (telid correction_calibrator))) = r1 event_no_r0"
proof -
  have 1: "meta event_no_r0 ''origin'' = Some ''targetio''" by (simp add: event_no_r0_def)
  have 2: "\<not> fst (check_r0_exists event_no_r0 (telid correction_calibrator))"
    by (simp add: event_no_r0_def event_defs)
  have 3: "calibrate_attr correction_calibrator = Real_calibrate"
    by (simp add: correction_calibrator_def)
  from missing_data_skipped[OF 1 2 disjI2[OF 3]] 1 2 3 show ?thesis by simp
qed

subsection \<open>Strategy selection\<close>

text \<open>
  C5. Whatever the transfer-function, pe and flat-field paths are, a calibrator that
  \<open>init\<close> returns is bound to Identity Behavior when the pedestal path is empty (or
  \<^verbatim>\<open>None\<close>) and to Correction Behavior when it is not, and after any sequence of
  \<^verbatim>\<open>calibrate\<close> calls it is still bound to the same behavior.
\<close>

theorem strategy_selection:
  assumes "init (Some m) pedestal tf pe ff = Inr self"
    and "calibrate_events float32 self h events = (self', h')"
  shows "calibrate_attr self = (if truthy pedestal then Real_calibrate else Fake_calibrate)
         \<and> calibrate_attr self' = calibrate_attr self"
  using init_attr[OF assms(1)] calibrate_events_fields(1)[OF assms(2)] by simp

theorem strategy_selection_witness:
  "init (Some mock_target_calib) (Some []) (Some ''tf.tcal'') (Some []) None = Inr identity_calibrator \<and>
   init (Some mock_target_calib) (Some ''ped.tcal'') (Some []) (Some []) (Some [])
     = Inr correction_calibrator \<and>
   calibrate_events real_of_int identity_calibrator empty_store [event_hessio, event_no_r0]
     = (identity_calibrator, empty_store) \<and>
   calibrate_events real_of_int correction_calibrator empty_store [event_hessio, event_no_r0]
     = (correction_calibrator, empty_store) \<and>
   calibrate_attr identity_calibrator = Fake_calibrate \<and>
   calibrate_attr correction_calibrator = Real_calibrate"
proof -
  have 1: "init (Some mock_target_calib) (Some []) (Some ''tf.tcal'') (Some []) None
             = Inr identity_calibrator"
    by (rule init_identity_calibrator)
  have 2: "init (Some mock_target_calib) (Some ''ped.tcal'') (Some []) (Some []) (Some [])
             = Inr correction_calibrator"
    by (rule init_correction_calibrator)
  have 3: "calibrate_events real_of_int identity_calibrator empty_store [event_hessio, event_no_r0]
             = (identity_calibrator, empty_store)"
    by (simp add: calibrate_def fake_calibrate_def identity_calibrator_def event_no_r0_def
        event_hessio_def event_defs)
  have 4: "calibrate_events real_of_int correction_calibrator empty_store [event_hessio, event_no_r0]
             = (correction_calibrator, empty_store)"
    by (simp add: calibrate_def real_calibrate_def correction_calibrator_def event_no_r0_def
        event_hessio_def event_defs)
  from strategy_selection[OF 1 3] strategy_selection[OF 2 4] 1 2 3 4
  show ?thesis by (simp add: truthy_def)
qed

subsection \<open>Only telescope 0\<close>

lemma fake_calibrate_frame:
  "t \<noteq> telid self \<Longrightarrow>
   (case fake_calibrate float32 self event h of
      (e, self', event', h') \<Rightarrow>
        r1_tel (r1 event') t = r1_tel (r1 event) t \<and>
        r0_tel (r0 event') t = r0_tel (r0 event) t \<and>
        tio_tel (targetio event') t = tio_tel (targetio event) t)"
  by (simp add: fake_calibrate_def event_defs Let_def alloc_def
        split: option.splits prod.splits)

lemma real_calibrate_frame:
  "t \<noteq> telid self \<Longrightarrow>
   (case real_calibrate self event h of
      (e, self', event', h') \<Rightarrow>
        r1_tel (r1 event') t = r1_tel (r1 event) t \<and>
        r0_tel (r0 event') t = r0_tel (r0 event) t \<and>
        tio_tel (targetio event') t = tio_tel (targetio event) t)"
  by (simp add: real_calibrate_def event_defs Let_def alloc_def
        split: option.splits prod.splits sum.splits)

lemma fake_calibrate_r0_other:
  "t \<noteq> telid self \<Longrightarrow>
   fake_calibrate float32 self (event\<lparr>r0 := (r0 event)\<lparr>r0_tel := (r0_tel (r0 event))(t := x)\<rparr>\<rparr>) h
     = (case fake_calibrate float32 self event h of
          (e, self', event', h') \<Rightarrow>
            (e, self', event'\<lparr>r0 := (r0 event')\<lparr>r0_tel := (r0_tel (r0 event'))(t := x)\<rparr>\<rparr>, h'))"
  by (simp add: fake_calibrate_def event_defs Let_def alloc_def fun_upd_twist
        split: option.splits prod.splits)

lemma real_calibrate_r0_other:
  "t \<noteq> telid self \<Longrightarrow>
   real_calibrate self (event\<lparr>r0 := (r0 event)\<lparr>r0_tel := (r0_tel (r0 event))(t := x)\<rparr>\<rparr>) h
     = (case real_calibrate self event h of
          (e, self', event', h') \<Rightarrow>
            (e, self', event'\<lparr>r0 := (r0 event')\<lparr>r0_tel := (r0_tel (r0 event'))(t := x)\<rparr>\<rparr>, h'))"
  by (simp add: real_calibrate_def event_defs Let_def alloc_def fun_upd_twist
        split: option.splits prod.splits sum.splits)

text \<open>
  C6. The telescope id of a calibrator is 0 from construction on and no call changes it.
  For every telescope id \<open>t \<noteq> 0\<close>, whether or not it is in \<open>tels_with_data\<close>, a call of
  \<^verbatim>\<open>calibrate\<close> in either behavior leaves the entries of \<open>t\<close> in the per-telescope maps
  of \<open>r1\<close>, \<open>r0\<close> and \<open>targetio\<close> as they were, and it does not read the raw entry of
  \<open>t\<close>: with any other raw entry for \<open>t\<close> the call has the same outcome.
\<close>

theorem only_telescope_0:
  assumes "init (Some m) pedestal tf pe ff = Inr self0"
    and "calibrate_events float32 self0 h0 events = (self, h)"
    and "calibrate float32 self event h = (e, self', event', h')"
    and "t \<noteq> 0"
  shows "telid self0 = 0 \<and> telid self = 0 \<and> telid self' = 0 \<and>
         r1_tel (r1 event') t = r1_tel (r1 event) t \<and>
         r0_tel (r0 event') t = r0_tel (r0 event) t \<and>
         tio_tel (targetio event') t = tio_tel (targetio event) t \<and>
         calibrate float32 self (event\<lparr>r0 := (r0 event)\<lparr>r0_tel := (r0_tel (r0 event))(t := x)\<rparr>\<rparr>) h
           = (e, self', event'\<lparr>r0 := (r0 event')\<lparr>r0_tel := (r0_tel (r0 event'))(t := x)\<rparr>\<rparr>, h')"
proof -
  from init_attr[OF assms(1)] have t0: "telid self0 = 0" by simp
  with calibrate_events_fields(2)[OF assms(2)] have t1: "telid self = 0" by simp
  from calibrate_self[OF assms(3)] obtain b where "self' = self\<lparr>r1_wf := b\<rparr>" ..
  with t1 have t2: "telid self' = 0" by simp
  from assms(4) t1 have ne: "t \<noteq> telid self" by simp
  have frame: "r1_tel (r1 event') t = r1_tel (r1 event) t \<and>
         r0_tel (r0 event') t = r0_tel (r0 event) t \<and>
         tio_tel (targetio event') t = tio_tel (targetio event) t"
    using assms(3) fake_calibrate_frame[OF ne, where ?float32.0=float32 and event=event and h=h] real_calibrate_frame[OF ne, where event=event and h=h]
    by (auto simp: calibrate_def split: bound_method.splits)
  have other: "calibrate float32 self (event\<lparr>r0 := (r0 event)\<lparr>r0_tel := (r0_tel (r0 event))(t := x)\<rparr>\<rparr>) h
           = (e, self', event'\<lparr>r0 := (r0 event')\<lparr>r0_tel := (r0_tel (r0 event'))(t := x)\<rparr>\<rparr>, h')"
    using assms(3) fake_calibrate_r0_other[OF ne, where ?float32.0=float32 and event=event and h=h and x=x]
      real_calibrate_r0_other[OF ne, where event=event and h=h and x=x]
    by (auto simp: calibrate_def split: bound_method.splits)
  from t0 t1 t2 frame other show ?thesis by simp
qed


theorem only_telescope_0_witness:
  "init (Some mock_target_calib) (Some ''ped.tcal'') (Some []) (Some []) (Some [])
     = Inr correction_calibrator \<and>
   calibrate_events real_of_int correction_calibrator empty_store []
     = (correction_calibrator, empty_store) \<and>
   (1::int) \<noteq> 0 \<and> 1 \<in> set (tels_with_data (r0 event_2x2)) \<and>
   telid (fst (snd (calibrate real_of_int correction_calibrator event_2x2 empty_store))) = 0 \<and>
   r1_tel (r1 (fst (snd (snd (calibrate real_of_int correction_calibrator event_2x2 empty_store))))) 1
     = None \<and>
   r0_tel (r0 (fst (snd (snd (calibrate real_of_int correction_calibrator event_2x2 empty_store))))) 1
     = Some \<lparr>r0_waveform = Some \<lparr>shape = [1, 1], data = [7]\<rparr>\<rparr>"
proof -
  have 1: "init (Some mock_target_calib) (Some ''ped.tcal'') (Some []) (Some []) (Some [])
             = Inr correction_calibrator"
    by (rule init_correction_calibrator)
  have 2: "calibrate_events real_of_int correction_calibrator empty_store []
             = (correction_calibrator, empty_store)"
    by simp
  obtain e s ev h where 3:
    "calibrate real_of_int correction_calibrator event_2x2 empty_store = (e, s, ev, h)"
    by (rule prod_cases4)
  have 4: "(1::int) \<noteq> 0" by simp
  from only_telescope_0[OF 1 2 3 4] 1 2 3 show ?thesis
    by (simp add: event_2x2_def)
qed

subsection \<open>The raw container\<close>

lemma real_calibrate_r0_cases:
  "(case real_calibrate self event h of
      (e, self', event', h') \<Rightarrow>
        r0 event' = r0 event \<or>
        (r0_tel (r0 event) (telid self) = None \<and>
         r0 event' = (r0 event)\<lparr>r0_tel := (r0_tel (r0 event))(telid self \<mapsto> \<lparr>r0_waveform = None\<rparr>)\<rparr>))"
  by (simp add: real_calibrate_def event_defs Let_def alloc_def
        split: option.splits prod.splits sum.splits)

lemma fake_calibrate_r0_cases:
  "(case fake_calibrate float32 self event h of
      (e, self', event', h') \<Rightarrow>
        r0 event' = r0 event \<or>
        (r0_tel (r0 event) (telid self) = None \<and>
         r0 event' = (r0 event)\<lparr>r0_tel := (r0_tel (r0 event))(telid self \<mapsto> \<lparr>r0_waveform = None\<rparr>)\<rparr>))"
  by (simp add: fake_calibrate_def event_defs Let_def alloc_def
        split: option.splits prod.splits sum.splits)

lemma r0_readback:
  assumes "r0 event' = r0 event \<or>
        (r0_tel (r0 event) k = None \<and>
         r0 event' = (r0 event)\<lparr>r0_tel := (r0_tel (r0 event))(k \<mapsto> \<lparr>r0_waveform = None\<rparr>)\<rparr>)"
  shows "fst (r0_tel_getitem event' t) = fst (r0_tel_getitem event t)"
    and "tels_with_data (r0 event') = tels_with_data (r0 event)"
    and "r0_tel (r0 event) k \<noteq> None \<longrightarrow> r0 event' = r0 event"
  using assms by (auto simp: r0_tel_getitem_def Map_getitem_def split: option.splits if_splits)

text \<open>
  C9. For every event that passes the origin check, a call of \<^verbatim>\<open>calibrate\<close> in either
  behavior, whatever its outcome, leaves the raw container as it was: reading the raw entry
  of any telescope afterwards gives what it gave before (so
  \<^verbatim>\<open>event.r0.tel[0].waveform\<close> has the same shape and elements), the list of telescopes
  with data is the same, and when the calibrator's telescope has a raw entry the raw
  container is identical. (Without a raw entry, the lookup creates the default, unset one.)
\<close>

theorem raw_container_unchanged:
  assumes "meta event ''origin'' = Some ''targetio''"
    and "calibrate float32 self event h = (e, self', event', h')"
  shows "fst (r0_tel_getitem event' t) = fst (r0_tel_getitem event t) \<and>
         tels_with_data (r0 event') = tels_with_data (r0 event) \<and>
         (r0_tel (r0 event) (telid self) \<noteq> None \<longrightarrow> r0 event' = r0 event)"
proof -
  have "r0 event' = r0 event \<or>
        (r0_tel (r0 event) (telid self) = None \<and>
         r0 event' = (r0 event)\<lparr>r0_tel := (r0_tel (r0 event))(telid self \<mapsto> \<lparr>r0_waveform = None\<rparr>)\<rparr>)"
  proof (cases "calibrate_attr self")
    case Placeholder
    with assms(2) show ?thesis by (simp add: calibrate_def)
  next
    case Fake_calibrate
    with assms(2) fake_calibrate_r0_cases[where ?float32.0=float32 and self=self and event=event and h=h] show ?thesis
      by (simp add: calibrate_def)
  next
    case Real_calibrate
    with assms(2) real_calibrate_r0_cases[where self=self and event=event and h=h] show ?thesis
      by (simp add: calibrate_def)
  qed
  from r0_readback[OF this] show ?thesis by simp
qed


theorem raw_container_unchanged_witness:
  "meta event_2x2 ''origin'' = Some ''targetio'' \<and>
   r0_tel (r0 event_2x2) (telid correction_calibrator) \<noteq> None \<and>
   fst (calibrate real_of_int correction_calibrator event_2x2 empty_store) = None \<and>
   r0 (fst (snd (snd (calibrate real_of_int correction_calibrator event_2x2 empty_store))))
     = r0 event_2x2"
proof -
  have 1: "meta event_2x2 ''origin'' = Some ''targetio''" by (simp add: event_2x2_def)
  obtain e s ev h where 2:
    "calibrate real_of_int correction_calibrator event_2x2 empty_store = (e, s, ev, h)"
    by (rule prod_cases4)
  have 3: "r0_tel (r0 event_2x2) (telid correction_calibrator) \<noteq> None"
    by (simp add: event_2x2_def correction_calibrator_def)
  have 4: "fst (calibrate real_of_int correction_calibrator event_2x2 empty_store) = None"
    by (simp add: calibrate_def real_calibrate_def correction_calibrator_def event_2x2_def
        event_defs alloc_def zeros_def getitem0_def mock_target_calib_def)
  from raw_container_unchanged[OF 1 2] 1 2 3 4 show ?thesis by simp
qed

subsection \<open>The output buffer\<close>

lemma real_calibrate_buffer_kept:
  "r1_wf self = Some buf \<Longrightarrow>
   (case real_calibrate self event h of
      (e, self', event', h') \<Rightarrow>
        r1_wf self' = Some buf \<and> shape (cell h' buf) = shape (cell h buf) \<and> nxt h' = nxt h)"
  by (simp add: real_calibrate_def event_defs Let_def fill0_def
        split: option.splits prod.splits sum.splits)

lemma real_calibrate_allocates:
  "r1_wf self = None \<Longrightarrow> meta event ''origin'' = Some ''targetio'' \<Longrightarrow>
   r0_tel (r0 event) (telid self) = Some c \<Longrightarrow> r0_waveform c = Some W \<Longrightarrow>
   (case real_calibrate self event h of
      (e, self', event', h') \<Rightarrow>
        r1_wf self' = Some (nxt h) \<and> shape (cell h' (nxt h)) = shape W)"
  by (simp add: real_calibrate_def event_defs Let_def fill0_def alloc_def zeros_def
        split: option.splits prod.splits sum.splits)

lemma real_calibrate_success:
  "r0_tel (r0 event) (telid self) = Some c \<Longrightarrow> r0_waveform c = Some samples \<Longrightarrow>
   (case real_calibrate self event h of
      (e, self', event', h') \<Rightarrow>
        e = None \<longrightarrow>
        (\<exists>buf. r1_wf self' = Some buf \<and>
               r1_tel (r1 event') (telid self) = Some \<lparr>r1_waveform = Some buf\<rparr>))"
  by (simp add: real_calibrate_def event_defs Let_def alloc_def
        split: option.splits prod.splits sum.splits)

lemma real_calibrate_content:
  "r1_wf self = Some buf \<Longrightarrow>
   r0_tel (r0 event) (telid self) = Some c \<Longrightarrow> r0_waveform c = Some samples \<Longrightarrow>
   (case real_calibrate self event h of
      (e, self', event', h') \<Rightarrow>
        e = None \<longrightarrow>
        (\<exists>d samples0 out.
           calibrator self = Some d \<and>
           getitem0 samples = Inr samples0 \<and> getitem0 (cell h buf) = Inr out \<and>
           cell h' buf =
             fill0 (fst (ApplyEvent (tc self) d samples0
                          (first_cell_ids (fst (targetio_tel_getitem event (telid self)))) out))
               (cell h buf)))"
  by (simp add: real_calibrate_def event_defs Let_def
        split: option.splits prod.splits sum.splits)

lemma real_calibrate_channel0_kept:
  "r1_wf self = Some buf \<Longrightarrow>
   r0_tel (r0 event) (telid self) = Some c \<Longrightarrow> r0_waveform c = Some W \<Longrightarrow>
   (case real_calibrate self event h of
      (e, self', event', h') \<Rightarrow>
        e = None \<longrightarrow>
        (\<exists>d. r1_wf self' = Some buf \<and>
           r1_tel (r1 event') (telid self) = Some \<lparr>r1_waveform = Some buf\<rparr> \<and>
           calibrator self = Some d \<and>
           shape (cell h' buf) = shape (cell h buf) \<and>
           data (cell h' buf) =
             map (fst (ApplyEvent (tc self) d
                        \<lparr>shape = tl (shape W), data = take (prod_list (tl (shape W))) (data W)\<rparr>
                        (first_cell_ids (fst (targetio_tel_getitem event (telid self))))
                        \<lparr>shape = tl (shape (cell h buf)),
                         data = take (prod_list (tl (shape (cell h buf)))) (data (cell h buf))\<rparr>))
               [0..<prod_list (tl (shape (cell h buf)))]
             @ drop (prod_list (tl (shape (cell h buf)))) (data (cell h buf))))"
  by (simp add: real_calibrate_def event_defs Let_def fill0_def getitem0_def
        split: option.splits prod.splits sum.splits list.splits if_splits)

lemma real_calibrate_channel0_alloc:
  "r1_wf self = None \<Longrightarrow>
   r0_tel (r0 event) (telid self) = Some c \<Longrightarrow> r0_waveform c = Some W \<Longrightarrow>
   (case real_calibrate self event h of
      (e, self', event', h') \<Rightarrow>
        e = None \<longrightarrow>
        (\<exists>d. r1_wf self' = Some (nxt h) \<and>
           r1_tel (r1 event') (telid self) = Some \<lparr>r1_waveform = Some (nxt h)\<rparr> \<and>
           calibrator self = Some d \<and>
           shape (cell h' (nxt h)) = shape W \<and>
           data (cell h' (nxt h)) =
             map (fst (ApplyEvent (tc self) d
                        \<lparr>shape = tl (shape W), data = take (prod_list (tl (shape W))) (data W)\<rparr>
                        (first_cell_ids (fst (targetio_tel_getitem event (telid self))))
                        \<lparr>shape = tl (shape W),
                         data = take (prod_list (tl (shape W))) (replicate (prod_list (shape W)) 0)\<rparr>))
               [0..<prod_list (tl (shape W))]
             @ drop (prod_list (tl (shape W))) (replicate (prod_list (shape W)) 0)))"
  by (simp add: real_calibrate_def event_defs Let_def fill0_def getitem0_def alloc_def zeros_def
        split: option.splits prod.splits sum.splits list.splits if_splits)

lemma real_calibrate_upper_zero:
  "(\<forall>b. r1_wf self = Some b \<longrightarrow>
           (\<forall>x \<in> set (drop (prod_list (tl (shape (cell h b)))) (data (cell h b))). x = 0)) \<Longrightarrow>
   (case real_calibrate self event h of
      (e, self', event', h') \<Rightarrow>
        (\<forall>b. r1_wf self' = Some b \<longrightarrow>
           (\<forall>x \<in> set (drop (prod_list (tl (shape (cell h' b)))) (data (cell h' b))). x = 0)))"
  by (simp add: real_calibrate_def event_defs Let_def fill0_def alloc_def zeros_def
        split: option.splits prod.splits sum.splits)


lemma nth_in_set_drop: "n \<le> i \<Longrightarrow> i < length xs \<Longrightarrow> xs ! i \<in> set (drop n xs)"
proof -
  assume a: "n \<le> i" "i < length xs"
  then have "i - n < length (drop n xs)" by simp
  then have "drop n xs ! (i - n) \<in> set (drop n xs)" by (rule nth_mem)
  moreover from a have "drop n xs ! (i - n) = xs ! i" by simp
  ultimately show ?thesis by simp
qed

lemma calibrate_events_upper_zero:
  assumes "calibrate_attr self = Real_calibrate"
    and "\<forall>b. r1_wf self = Some b \<longrightarrow>
           (\<forall>x \<in> set (drop (prod_list (tl (shape (cell h b)))) (data (cell h b))). x = 0)"
    and "calibrate_events float32 self h events = (self', h')"
  shows "\<forall>b. r1_wf self' = Some b \<longrightarrow>
           (\<forall>x \<in> set (drop (prod_list (tl (shape (cell h' b)))) (data (cell h' b))). x = 0)"
  using assms
proof (induction events arbitrary: self h)
  case Nil
  from Nil.prems(3) have "self' = self" and "h' = h" by simp_all
  with Nil.prems(2) show ?case by simp
next
  case (Cons event events)
  obtain e self1 event1 h1 where c: "calibrate float32 self event h = (e, self1, event1, h1)"
    by (rule prod_cases4)
  with Cons.prems(1) have r: "real_calibrate self event h = (e, self1, event1, h1)"
    by (simp add: calibrate_def)
  from calibrate_self[OF c] obtain b where "self1 = self\<lparr>r1_wf := b\<rparr>" ..
  with Cons.prems(1) have a1: "calibrate_attr self1 = Real_calibrate" by simp
  from real_calibrate_upper_zero[OF Cons.prems(2), where event = event] r
  have i1: "\<forall>b. r1_wf self1 = Some b \<longrightarrow>
           (\<forall>x \<in> set (drop (prod_list (tl (shape (cell h1 b)))) (data (cell h1 b))). x = 0)"
    by simp
  from Cons.prems(3) c have "calibrate_events float32 self1 h1 events = (self', h')" by simp
  from Cons.IH[OF a1 i1 this] show ?case .
qed

lemmas run_defs = calibrate_def real_calibrate_def correction_calibrator_def
  mock_target_calib_def empty_store_def alloc_def zeros_def getitem0_def fill0_def
  numeral_2_eq_2

lemma after_2x2_eval:
  "after_2x2 =
     (None, correction_calibrator\<lparr>r1_wf := Some 0\<rparr>,
      event_2x2\<lparr>r1 := \<lparr>r1_tel = [0 \<mapsto> \<lparr>r1_waveform = Some 0\<rparr>]\<rparr>\<rparr>,
      \<lparr>nxt = 1, cell = (cell empty_store)(0 := \<lparr>shape = [2, 2], data = [1, 2, 0, 0]\<rparr>)\<rparr>)"
  by (simp add: after_2x2_def run_defs event_2x2_def event_defs)

lemma after_3x1_eval:
  "after_3x1 =
     (None, correction_calibrator\<lparr>r1_wf := Some 0\<rparr>,
      event_3x1\<lparr>r1 := \<lparr>r1_tel = [0 \<mapsto> \<lparr>r1_waveform = Some 0\<rparr>]\<rparr>\<rparr>,
      \<lparr>nxt = 1, cell = (cell empty_store)(0 := \<lparr>shape = [2, 2], data = [101, 0, 0, 0]\<rparr>)\<rparr>)"
  by (simp add: after_3x1_def after_2x2_eval run_defs event_3x1_def event_defs)

lemma after_2x2_b_eval:
  "after_2x2_b =
     (None, correction_calibrator\<lparr>r1_wf := Some 0\<rparr>,
      event_2x2_b\<lparr>r1 := \<lparr>r1_tel = [0 \<mapsto> \<lparr>r1_waveform = Some 0\<rparr>]\<rparr>\<rparr>,
      \<lparr>nxt = 1, cell = (cell empty_store)(0 := \<lparr>shape = [2, 2], data = [11, 12, 0, 0]\<rparr>)\<rparr>)"
  by (simp add: after_2x2_b_def after_2x2_eval run_defs event_2x2_b_def event_defs)

lemma after_write_eval:
  "after_write =
     (None, correction_calibrator\<lparr>r1_wf := Some 0\<rparr>,
      event_2x2_b\<lparr>r1 := \<lparr>r1_tel = [0 \<mapsto> \<lparr>r1_waveform = Some 0\<rparr>]\<rparr>\<rparr>,
      \<lparr>nxt = 1, cell = (cell empty_store)(0 := \<lparr>shape = [2, 2], data = [11, 12, 7, 7]\<rparr>)\<rparr>)"
  by (simp add: after_write_def written_store_def after_2x2_eval run_defs event_2x2_b_def event_defs)

lemma after_2x2_call:
  "calibrate real_of_int correction_calibrator event_2x2 empty_store
     = (None, fst (snd after_2x2), fst (snd (snd after_2x2)), snd (snd (snd after_2x2)))"
  by (simp add: after_2x2_def[symmetric] after_2x2_eval)

lemma after_3x1_call:
  "calibrate real_of_int (fst (snd after_2x2)) event_3x1 (snd (snd (snd after_2x2)))
     = (None, fst (snd after_3x1), fst (snd (snd after_3x1)), snd (snd (snd after_3x1)))"
  by (simp add: after_3x1_def[symmetric] after_3x1_eval)

lemma after_2x2_b_call:
  "calibrate real_of_int (fst (snd after_2x2)) event_2x2_b (snd (snd (snd after_2x2)))
     = (None, fst (snd after_2x2_b), fst (snd (snd after_2x2_b)), snd (snd (snd after_2x2_b)))"
  by (simp add: after_2x2_b_def[symmetric] after_2x2_b_eval)


text \<open>
  C3, as stated, fails. The calibrator with a pedestal path calibrates an event with a raw
  waveform of shape [2, 2] and then one with a raw waveform of shape [3, 1]; both calls
  return without error, the buffer is the same object after both, and the second event's
  calibrated waveform has shape [2, 2], not [3, 1].
\<close>

theorem shape_robustness_counterexample:
  "fst after_2x2 = None \<and> fst after_3x1 = None \<and>
   r0_tel (r0 event_2x2) 0
     = Some \<lparr>r0_waveform = Some \<lparr>shape = [2, 2], data = [101, 102, 103, 104]\<rparr>\<rparr> \<and>
   r0_tel (r0 event_3x1) 0
     = Some \<lparr>r0_waveform = Some \<lparr>shape = [3, 1], data = [201, 202, 203]\<rparr>\<rparr> \<and>
   r1_wf (fst (snd after_2x2)) = Some 0 \<and>
   r1_wf (fst (snd after_3x1)) = Some 0 \<and>
   r1_tel (r1 (fst (snd (snd after_3x1)))) 0 = Some \<lparr>r1_waveform = Some 0\<rparr> \<and>
   shape (cell (snd (snd (snd after_3x1))) 0) = [2, 2]"
  by (simp add: after_2x2_eval after_3x1_eval event_2x2_def event_3x1_def)

text \<open>
  C3, amended. In Correction Behavior the output buffer is allocated once, by the first call
  that finds a raw waveform (in an event of origin \<^verbatim>\<open>'targetio'\<close>), with the shape of
  that waveform, and it is never reallocated: however that call and the next one end and
  whatever the next event is, the buffer is the same object and has the shape of the first
  waveform; and when the next call returns without error for an event with a raw waveform,
  whatever its shape, that event's calibrated waveform is this buffer.
\<close>

theorem buffer_shape_fixed:
  assumes "calibrate_attr self = Real_calibrate" and "r1_wf self = None"
    and "meta E1 ''origin'' = Some ''targetio''"
    and "r0_tel (r0 E1) (telid self) = Some c1" and "r0_waveform c1 = Some W1"
    and "calibrate float32 self E1 h = (e1, self1, E1', h1)"
    and "calibrate float32 self1 E2 h1 = (e2, self2, E2', h2)"
  shows "\<exists>buf. r1_wf self1 = Some buf \<and> r1_wf self2 = Some buf \<and>
           shape (cell h1 buf) = shape W1 \<and> shape (cell h2 buf) = shape W1 \<and>
           (e2 = None \<longrightarrow>
              (\<forall>c2 W2. r0_tel (r0 E2) (telid self) = Some c2 \<longrightarrow> r0_waveform c2 = Some W2 \<longrightarrow>
                 r1_tel (r1 E2') (telid self) = Some \<lparr>r1_waveform = Some buf\<rparr>))"
proof -
  from assms(1,6) have r1: "real_calibrate self E1 h = (e1, self1, E1', h1)"
    by (simp add: calibrate_def)
  from real_calibrate_allocates[OF assms(2,3,4,5), where h = h] r1
  have b1: "r1_wf self1 = Some (nxt h)" and s1: "shape (cell h1 (nxt h)) = shape W1" by auto
  from calibrate_self[OF assms(6)] obtain b where "self1 = self\<lparr>r1_wf := b\<rparr>" ..
  then have s: "telid self1 = telid self" "calibrate_attr self1 = calibrate_attr self" by simp_all
  from assms(1,7) s have r2: "real_calibrate self1 E2 h1 = (e2, self2, E2', h2)"
    by (simp add: calibrate_def)
  from real_calibrate_buffer_kept[OF b1, where event = E2 and h = h1] r2
  have b2: "r1_wf self2 = Some (nxt h)" and s2: "shape (cell h2 (nxt h)) = shape (cell h1 (nxt h))"
    by simp_all
  have "e2 = None \<longrightarrow>
              (\<forall>c2 W2. r0_tel (r0 E2) (telid self) = Some c2 \<longrightarrow> r0_waveform c2 = Some W2 \<longrightarrow>
                 r1_tel (r1 E2') (telid self) = Some \<lparr>r1_waveform = Some (nxt h)\<rparr>)"
  proof (intro impI allI)
    fix c2 W2
    assume n: "e2 = None" and e: "r0_tel (r0 E2) (telid self) = Some c2"
      and w: "r0_waveform c2 = Some W2"
    from e s have "r0_tel (r0 E2) (telid self1) = Some c2" by simp
    from real_calibrate_success[OF this w, where h = h1] r2 n b2 s
    show "r1_tel (r1 E2') (telid self) = Some \<lparr>r1_waveform = Some (nxt h)\<rparr>" by auto
  qed
  with b1 b2 s1 s2 show ?thesis by simp
qed

theorem buffer_shape_fixed_witness:
  "calibrate_attr correction_calibrator = Real_calibrate \<and> r1_wf correction_calibrator = None \<and>
   meta event_2x2 ''origin'' = Some ''targetio'' \<and>
   r0_tel (r0 event_2x2) (telid correction_calibrator)
     = Some \<lparr>r0_waveform = Some \<lparr>shape = [2, 2], data = [101, 102, 103, 104]\<rparr>\<rparr> \<and>
   r0_tel (r0 event_3x1) (telid correction_calibrator)
     = Some \<lparr>r0_waveform = Some \<lparr>shape = [3, 1], data = [201, 202, 203]\<rparr>\<rparr> \<and>
   after_2x2 = (None, fst (snd after_2x2), fst (snd (snd after_2x2)), snd (snd (snd after_2x2))) \<and>
   after_3x1 = (None, fst (snd after_3x1), fst (snd (snd after_3x1)), snd (snd (snd after_3x1))) \<and>
   (\<exists>buf. r1_wf (fst (snd after_2x2)) = Some buf \<and> r1_wf (fst (snd after_3x1)) = Some buf \<and>
      shape (cell (snd (snd (snd after_2x2))) buf) = [2, 2] \<and>
      shape (cell (snd (snd (snd after_3x1))) buf) = [2, 2] \<and>
      r1_tel (r1 (fst (snd (snd after_3x1)))) (telid correction_calibrator)
        = Some \<lparr>r1_waveform = Some buf\<rparr>)"
proof -
  have 1: "calibrate_attr correction_calibrator = Real_calibrate"
    by (simp add: correction_calibrator_def)
  have 2: "r1_wf correction_calibrator = None" by (simp add: correction_calibrator_def)
  have o: "meta event_2x2 ''origin'' = Some ''targetio''" by (simp add: event_2x2_def)
  have 3: "r0_tel (r0 event_2x2) (telid correction_calibrator)
     = Some \<lparr>r0_waveform = Some \<lparr>shape = [2, 2], data = [101, 102, 103, 104]\<rparr>\<rparr>"
    by (simp add: correction_calibrator_def event_2x2_def)
  have 4: "r0_waveform \<lparr>r0_waveform = Some \<lparr>shape = [2, 2], data = [101, 102, 103, 104::int]\<rparr>\<rparr>
     = Some \<lparr>shape = [2, 2], data = [101, 102, 103, 104]\<rparr>" by simp
  have 5: "r0_tel (r0 event_3x1) (telid correction_calibrator)
     = Some \<lparr>r0_waveform = Some \<lparr>shape = [3, 1], data = [201, 202, 203]\<rparr>\<rparr>"
    by (simp add: correction_calibrator_def event_3x1_def)
  have 6: "r0_waveform \<lparr>r0_waveform = Some \<lparr>shape = [3, 1], data = [201, 202, 203::int]\<rparr>\<rparr>
     = Some \<lparr>shape = [3, 1], data = [201, 202, 203]\<rparr>" by simp
  have 7: "after_2x2 = (None, fst (snd after_2x2), fst (snd (snd after_2x2)), snd (snd (snd after_2x2)))"
    by (simp add: after_2x2_eval)
  have 8: "after_3x1 = (None, fst (snd after_3x1), fst (snd (snd after_3x1)), snd (snd (snd after_3x1)))"
    by (simp add: after_3x1_eval)
  from buffer_shape_fixed[OF 1 2 o 3 4 after_2x2_call after_3x1_call]
  obtain buf where b: "r1_wf (fst (snd after_2x2)) = Some buf" "r1_wf (fst (snd after_3x1)) = Some buf"
    "shape (cell (snd (snd (snd after_2x2))) buf) = [2, 2]"
    "shape (cell (snd (snd (snd after_3x1))) buf) = [2, 2]"
    and i: "\<forall>c2 W2. r0_tel (r0 event_3x1) (telid correction_calibrator) = Some c2 \<longrightarrow>
                 r0_waveform c2 = Some W2 \<longrightarrow>
                 r1_tel (r1 (fst (snd (snd after_3x1)))) (telid correction_calibrator)
                   = Some \<lparr>r1_waveform = Some buf\<rparr>"
    by auto
  from i 5 6 have "r1_tel (r1 (fst (snd (snd after_3x1)))) (telid correction_calibrator)
                   = Some \<lparr>r1_waveform = Some buf\<rparr>" by blast
  with b 1 2 o 3 5 7 8 show ?thesis by blast
qed

text \<open>
  C7. In Correction Behavior, when two events that have a raw waveform are calibrated one
  after the other by the same calibrator and both calls return without error, the
  calibrated waveform of the first event and that of the second are the same object, the
  calibrator's buffer; after the second call it holds what \<open>ApplyEvent\<close> wrote for the
  second event (the fill of the view at index 0, from the second event's \<^verbatim>\<open>samples[0]\<close>
  and first cell ids), so reading the first event's calibrated waveform gives the second
  event's values.
\<close>

theorem output_buffer_aliasing:
  assumes "calibrate_attr self = Real_calibrate"
    and "r0_tel (r0 E1) (telid self) = Some c1" and "r0_waveform c1 = Some W1"
    and "r0_tel (r0 E2) (telid self) = Some c2" and "r0_waveform c2 = Some W2"
    and "calibrate float32 self E1 h = (None, self1, E1', h1)"
    and "calibrate float32 self1 E2 h1 = (None, self2, E2', h2)"
  shows "\<exists>buf d samples0 out.
           r1_wf self1 = Some buf \<and> r1_wf self2 = Some buf \<and>
           r1_tel (r1 E1') (telid self) = Some \<lparr>r1_waveform = Some buf\<rparr> \<and>
           r1_tel (r1 E2') (telid self) = Some \<lparr>r1_waveform = Some buf\<rparr> \<and>
           calibrator self = Some d \<and>
           getitem0 W2 = Inr samples0 \<and> getitem0 (cell h1 buf) = Inr out \<and>
           cell h2 buf =
             fill0 (fst (ApplyEvent (tc self) d samples0
                          (first_cell_ids (fst (targetio_tel_getitem E2 (telid self)))) out))
               (cell h1 buf)"
proof -
  from assms(1,6) have r1: "real_calibrate self E1 h = (None, self1, E1', h1)"
    by (simp add: calibrate_def)
  from real_calibrate_success[OF assms(2,3), where h = h] r1
  obtain buf where b1: "r1_wf self1 = Some buf"
    and w1: "r1_tel (r1 E1') (telid self) = Some \<lparr>r1_waveform = Some buf\<rparr>" by auto
  from calibrate_self[OF assms(6)] obtain b where "self1 = self\<lparr>r1_wf := b\<rparr>" ..
  then have s: "telid self1 = telid self" "calibrate_attr self1 = calibrate_attr self"
    "calibrator self1 = calibrator self" "tc self1 = tc self" by simp_all
  from assms(1,7) s have r2: "real_calibrate self1 E2 h1 = (None, self2, E2', h2)"
    by (simp add: calibrate_def)
  from assms(4) s have e2: "r0_tel (r0 E2) (telid self1) = Some c2" by simp
  from real_calibrate_buffer_kept[OF b1, where event = E2 and h = h1] r2
  have b2: "r1_wf self2 = Some buf" by simp
  from real_calibrate_success[OF e2 assms(5), where h = h1] r2 b2 s
  have w2: "r1_tel (r1 E2') (telid self) = Some \<lparr>r1_waveform = Some buf\<rparr>" by auto
  from real_calibrate_content[OF b1 e2 assms(5), where h = h1] r2 s
  obtain d samples0 out where "calibrator self = Some d" "getitem0 W2 = Inr samples0"
    "getitem0 (cell h1 buf) = Inr out"
    "cell h2 buf =
             fill0 (fst (ApplyEvent (tc self) d samples0
                          (first_cell_ids (fst (targetio_tel_getitem E2 (telid self)))) out))
               (cell h1 buf)"
    by auto
  with b1 b2 w1 w2 show ?thesis by blast
qed


theorem output_buffer_aliasing_witness:
  "calibrate_attr correction_calibrator = Real_calibrate \<and>
   r0_tel (r0 event_2x2) (telid correction_calibrator)
     = Some \<lparr>r0_waveform = Some \<lparr>shape = [2, 2], data = [101, 102, 103, 104]\<rparr>\<rparr> \<and>
   r0_tel (r0 event_2x2_b) (telid correction_calibrator)
     = Some \<lparr>r0_waveform = Some \<lparr>shape = [2, 2], data = [111, 112, 113, 114]\<rparr>\<rparr> \<and>
   after_2x2 = (None, fst (snd after_2x2), fst (snd (snd after_2x2)), snd (snd (snd after_2x2))) \<and>
   after_2x2_b = (None, fst (snd after_2x2_b), fst (snd (snd after_2x2_b)), snd (snd (snd after_2x2_b))) \<and>
   (\<exists>buf. r1_tel (r1 (fst (snd (snd after_2x2)))) (telid correction_calibrator)
             = Some \<lparr>r1_waveform = Some buf\<rparr> \<and>
          r1_tel (r1 (fst (snd (snd after_2x2_b)))) (telid correction_calibrator)
             = Some \<lparr>r1_waveform = Some buf\<rparr> \<and>
          data (cell (snd (snd (snd after_2x2))) buf) = [1, 2, 0, 0] \<and>
          data (cell (snd (snd (snd after_2x2_b))) buf) = [11, 12, 0, 0])"
proof -
  have 1: "calibrate_attr correction_calibrator = Real_calibrate"
    by (simp add: correction_calibrator_def)
  have 2: "r0_tel (r0 event_2x2) (telid correction_calibrator)
     = Some \<lparr>r0_waveform = Some \<lparr>shape = [2, 2], data = [101, 102, 103, 104]\<rparr>\<rparr>"
    by (simp add: correction_calibrator_def event_2x2_def)
  have 3: "r0_waveform \<lparr>r0_waveform = Some \<lparr>shape = [2, 2], data = [101, 102, 103, 104::int]\<rparr>\<rparr>
     = Some \<lparr>shape = [2, 2], data = [101, 102, 103, 104]\<rparr>" by simp
  have 4: "r0_tel (r0 event_2x2_b) (telid correction_calibrator)
     = Some \<lparr>r0_waveform = Some \<lparr>shape = [2, 2], data = [111, 112, 113, 114]\<rparr>\<rparr>"
    by (simp add: correction_calibrator_def event_2x2_b_def)
  have 5: "r0_waveform \<lparr>r0_waveform = Some \<lparr>shape = [2, 2], data = [111, 112, 113, 114::int]\<rparr>\<rparr>
     = Some \<lparr>shape = [2, 2], data = [111, 112, 113, 114]\<rparr>" by simp
  have 7: "after_2x2 = (None, fst (snd after_2x2), fst (snd (snd after_2x2)), snd (snd (snd after_2x2)))"
    by (simp add: after_2x2_eval)
  have 8: "after_2x2_b = (None, fst (snd after_2x2_b), fst (snd (snd after_2x2_b)), snd (snd (snd after_2x2_b)))"
    by (simp add: after_2x2_b_eval)
  from output_buffer_aliasing[OF 1 2 3 4 5 after_2x2_call after_2x2_b_call]
  obtain buf where b: "r1_wf (fst (snd after_2x2)) = Some buf"
    "r1_tel (r1 (fst (snd (snd after_2x2)))) (telid correction_calibrator)
             = Some \<lparr>r1_waveform = Some buf\<rparr>"
    "r1_tel (r1 (fst (snd (snd after_2x2_b)))) (telid correction_calibrator)
             = Some \<lparr>r1_waveform = Some buf\<rparr>"
    by auto
  from b(1) have z: "buf = 0" by (simp add: after_2x2_eval)
  have "data (cell (snd (snd (snd after_2x2))) buf) = [1, 2, 0, 0]"
    "data (cell (snd (snd (snd after_2x2_b))) buf) = [11, 12, 0, 0]"
    by (simp_all add: z after_2x2_eval after_2x2_b_eval)
  with b 1 2 4 7 8 show ?thesis by blast
qed

text \<open>
  C8, as stated, fails. The calibrated waveform is the calibrator's buffer, which every
  event it has calibrated holds. After a first call, a consumer of the first event writes 7
  into channel 1 of that event's calibrated waveform; the next call, on an event with two
  channels, returns without error and the calibrated waveform it stores has 7, not 0, in
  channel 1.
\<close>

theorem upper_channels_counterexample:
  "calibrate_attr (fst (snd after_2x2)) = Real_calibrate \<and>
   r1_wf (fst (snd after_2x2)) = Some 0 \<and>
   r1_tel (r1 (fst (snd (snd after_2x2)))) 0 = Some \<lparr>r1_waveform = Some 0\<rparr> \<and>
   r0_tel (r0 event_2x2_b) 0
     = Some \<lparr>r0_waveform = Some \<lparr>shape = [2, 2], data = [111, 112, 113, 114]\<rparr>\<rparr> \<and>
   fst after_write = None \<and>
   r1_tel (r1 (fst (snd (snd after_write)))) 0 = Some \<lparr>r1_waveform = Some 0\<rparr> \<and>
   shape (cell (snd (snd (snd after_write))) 0) = [2, 2] \<and>
   data (cell (snd (snd (snd after_write))) 0) = [11, 12, 7, 7] \<and>
   data (cell (snd (snd (snd after_write))) 0) ! 2 \<noteq> 0"
  by (simp add: after_2x2_eval after_write_eval event_2x2_b_def correction_calibrator_def)

text \<open>
  C8, amended. In Correction Behavior a call that returns without error for an event with a
  raw waveform \<open>W\<close> applies the external routine to channel 0 only: \<open>ApplyEvent\<close> is
  given the sub-array at index 0 of \<open>W\<close>, the first cell ids and the sub-array at index 0
  of the buffer (the buffer of this calibrator, or a new one of zeros of the shape of
  \<open>W\<close> when it has none), and what it returns is written to that sub-array of the buffer
  and nowhere else. The buffer is what is stored into the event's calibrated waveform; its
  elements of channels 1 and above are never a corrected sample: they are what the buffer
  held before the call, so they are 0 when the call allocates the buffer, and 0 at every
  call of a calibrator whose store only its own calls have written since construction.
\<close>

theorem channel_0_only:
  assumes "calibrate_attr self = Real_calibrate"
    and "r0_tel (r0 event) (telid self) = Some c" and "r0_waveform c = Some W"
    and "calibrate float32 self event h = (None, self', event', h')"
  shows "\<exists>buf h1 d.
           (r1_wf self = None \<and> buf = nxt h \<and> h1 = snd (alloc h (zeros (shape W))) \<or>
            r1_wf self = Some buf \<and> h1 = h) \<and>
           r1_wf self' = Some buf \<and>
           r1_tel (r1 event') (telid self) = Some \<lparr>r1_waveform = Some buf\<rparr> \<and>
           calibrator self = Some d \<and>
           shape (cell h' buf) = shape (cell h1 buf) \<and>
           data (cell h' buf) =
             map (fst (ApplyEvent (tc self) d
                        \<lparr>shape = tl (shape W), data = take (prod_list (tl (shape W))) (data W)\<rparr>
                        (first_cell_ids (fst (targetio_tel_getitem event (telid self))))
                        \<lparr>shape = tl (shape (cell h1 buf)),
                         data = take (prod_list (tl (shape (cell h1 buf)))) (data (cell h1 buf))\<rparr>))
               [0..<prod_list (tl (shape (cell h1 buf)))]
             @ drop (prod_list (tl (shape (cell h1 buf)))) (data (cell h1 buf)) \<and>
           (r1_wf self = None \<longrightarrow>
              (\<forall>i. prod_list (tl (shape (cell h' buf))) \<le> i \<and> i < length (data (cell h' buf))
                 \<longrightarrow> data (cell h' buf) ! i = 0)) \<and>
           (\<forall>m pedestal tf pe ff self0 h0 events.
              init (Some m) pedestal tf pe ff = Inr self0 \<longrightarrow>
              calibrate_events float32 self0 h0 events = (self, h) \<longrightarrow>
              (\<forall>i. prod_list (tl (shape (cell h' buf))) \<le> i \<and> i < length (data (cell h' buf))
                 \<longrightarrow> data (cell h' buf) ! i = 0))"
proof -
  from assms(1,4) have r: "real_calibrate self event h = (None, self', event', h')"
    by (simp add: calibrate_def)
  have zero: "\<forall>i. prod_list (tl (shape (cell h' buf))) \<le> i \<and> i < length (data (cell h' buf))
                 \<longrightarrow> data (cell h' buf) ! i = 0"
    if inv: "\<forall>b. r1_wf self = Some b \<longrightarrow>
           (\<forall>x \<in> set (drop (prod_list (tl (shape (cell h b)))) (data (cell h b))). x = 0)"
      and b: "r1_wf self' = Some buf" for buf
  proof -
    from real_calibrate_upper_zero[OF inv, where event = event] r b
    have "\<forall>x \<in> set (drop (prod_list (tl (shape (cell h' buf)))) (data (cell h' buf))). x = 0"
      by simp
    then show ?thesis using nth_in_set_drop by blast
  qed
  have run: "\<forall>m pedestal tf pe ff self0 h0 events.
              init (Some m) pedestal tf pe ff = Inr self0 \<longrightarrow>
              calibrate_events float32 self0 h0 events = (self, h) \<longrightarrow>
              (\<forall>i. prod_list (tl (shape (cell h' buf))) \<le> i \<and> i < length (data (cell h' buf))
                 \<longrightarrow> data (cell h' buf) ! i = 0)"
    if b: "r1_wf self' = Some buf" for buf
  proof (intro allI impI)
    fix m pedestal tf pe ff self0 h0 events i
    assume i0: "init (Some m) pedestal tf pe ff = Inr self0"
      and ev: "calibrate_events float32 self0 h0 events = (self, h)"
      and i: "prod_list (tl (shape (cell h' buf))) \<le> i \<and> i < length (data (cell h' buf))"
    from init_attr[OF i0] have b0: "r1_wf self0 = None" by simp
    from calibrate_events_fields(1)[OF ev] assms(1)
    have a0: "calibrate_attr self0 = Real_calibrate" by simp
    from b0 have "\<forall>b. r1_wf self0 = Some b \<longrightarrow>
           (\<forall>x \<in> set (drop (prod_list (tl (shape (cell h0 b)))) (data (cell h0 b))). x = 0)"
      by simp
    from calibrate_events_upper_zero[OF a0 this ev]
    have "\<forall>b. r1_wf self = Some b \<longrightarrow>
           (\<forall>x \<in> set (drop (prod_list (tl (shape (cell h b)))) (data (cell h b))). x = 0)" .
    from zero[OF this b] i show "data (cell h' buf) ! i = 0" by blast
  qed
  show ?thesis
  proof (cases "r1_wf self")
    case None
    from real_calibrate_channel0_alloc[OF None assms(2,3), where h = h] r
    obtain d where k: "r1_wf self' = Some (nxt h)"
      "r1_tel (r1 event') (telid self) = Some \<lparr>r1_waveform = Some (nxt h)\<rparr>"
      "calibrator self = Some d"
      "shape (cell h' (nxt h)) = shape W"
      "data (cell h' (nxt h)) =
             map (fst (ApplyEvent (tc self) d
                        \<lparr>shape = tl (shape W), data = take (prod_list (tl (shape W))) (data W)\<rparr>
                        (first_cell_ids (fst (targetio_tel_getitem event (telid self))))
                        \<lparr>shape = tl (shape W),
                         data = take (prod_list (tl (shape W))) (replicate (prod_list (shape W)) 0)\<rparr>))
               [0..<prod_list (tl (shape W))]
             @ drop (prod_list (tl (shape W))) (replicate (prod_list (shape W)) 0)"
      by auto
    have c: "cell (snd (alloc h (zeros (shape W)))) (nxt h)
               = \<lparr>shape = shape W, data = replicate (prod_list (shape W)) 0\<rparr>"
      by (simp add: alloc_def zeros_def)
    from None have "\<forall>b. r1_wf self = Some b \<longrightarrow>
           (\<forall>x \<in> set (drop (prod_list (tl (shape (cell h b)))) (data (cell h b))). x = 0)"
      by simp
    note z = zero[OF this k(1)]
    note rn = run[OF k(1)]
    show ?thesis
      apply (rule exI[of _ "nxt h"])
      apply (rule exI[of _ "snd (alloc h (zeros (shape W)))"])
      apply (rule exI[of _ d])
      using None k z rn by (simp add: c)
  next
    case (Some b)
    from real_calibrate_channel0_kept[OF Some assms(2,3), where h = h] r
    obtain d where k: "r1_wf self' = Some b"
      "r1_tel (r1 event') (telid self) = Some \<lparr>r1_waveform = Some b\<rparr>"
      "calibrator self = Some d"
      "shape (cell h' b) = shape (cell h b)"
      "data (cell h' b) =
             map (fst (ApplyEvent (tc self) d
                        \<lparr>shape = tl (shape W), data = take (prod_list (tl (shape W))) (data W)\<rparr>
                        (first_cell_ids (fst (targetio_tel_getitem event (telid self))))
                        \<lparr>shape = tl (shape (cell h b)),
                         data = take (prod_list (tl (shape (cell h b)))) (data (cell h b))\<rparr>))
               [0..<prod_list (tl (shape (cell h b)))]
             @ drop (prod_list (tl (shape (cell h b)))) (data (cell h b))"
      by auto
    note rn = run[OF k(1)]
    show ?thesis
      apply (rule exI[of _ b])
      apply (rule exI[of _ h])
      apply (rule exI[of _ d])
      using Some k rn by simp
  qed
qed

theorem channel_0_only_witness:
  "calibrate_attr (fst (snd after_2x2)) = Real_calibrate \<and>
   r0_tel (r0 event_2x2_b) (telid (fst (snd after_2x2)))
     = Some \<lparr>r0_waveform = Some \<lparr>shape = [2, 2], data = [111, 112, 113, 114]\<rparr>\<rparr> \<and>
   after_2x2_b = (None, fst (snd after_2x2_b), fst (snd (snd after_2x2_b)), snd (snd (snd after_2x2_b))) \<and>
   init (Some mock_target_calib) (Some ''ped.tcal'') (Some []) (Some []) (Some [])
     = Inr correction_calibrator \<and>
   calibrate_events real_of_int correction_calibrator empty_store [event_2x2]
     = (fst (snd after_2x2), snd (snd (snd after_2x2))) \<and>
   r1_wf (fst (snd after_2x2)) = Some 0 \<and>
   data (cell (snd (snd (snd after_2x2))) 0) = [1, 2, 0, 0] \<and>
   r1_tel (r1 (fst (snd (snd after_2x2_b)))) (telid (fst (snd after_2x2)))
     = Some \<lparr>r1_waveform = Some 0\<rparr> \<and>
   shape (cell (snd (snd (snd after_2x2_b))) 0) = [2, 2] \<and>
   data (cell (snd (snd (snd after_2x2_b))) 0) = [11, 12, 0, 0] \<and>
   data (cell (snd (snd (snd after_2x2_b))) 0) ! 2 = 0 \<and>
   data (cell (snd (snd (snd after_2x2_b))) 0) ! 3 = 0"
proof -
  have 1: "calibrate_attr (fst (snd after_2x2)) = Real_calibrate"
    by (simp add: after_2x2_eval correction_calibrator_def)
  have 2: "r0_tel (r0 event_2x2_b) (telid (fst (snd after_2x2)))
     = Some \<lparr>r0_waveform = Some \<lparr>shape = [2, 2], data = [111, 112, 113, 114]\<rparr>\<rparr>"
    by (simp add: after_2x2_eval correction_calibrator_def event_2x2_b_def)
  have 3: "r0_waveform \<lparr>r0_waveform = Some \<lparr>shape = [2, 2], data = [111, 112, 113, 114::int]\<rparr>\<rparr>
     = Some \<lparr>shape = [2, 2], data = [111, 112, 113, 114]\<rparr>" by simp
  have 4: "after_2x2_b = (None, fst (snd after_2x2_b), fst (snd (snd after_2x2_b)), snd (snd (snd after_2x2_b)))"
    by (simp add: after_2x2_b_eval)
  have 5: "init (Some mock_target_calib) (Some ''ped.tcal'') (Some []) (Some []) (Some [])
     = Inr correction_calibrator"
    by (rule init_correction_calibrator)
  have 6: "calibrate_events real_of_int correction_calibrator empty_store [event_2x2]
     = (fst (snd after_2x2), snd (snd (snd after_2x2)))"
    by (simp add: after_2x2_call split: prod.splits)
  have 7: "r1_wf (fst (snd after_2x2)) = Some 0" by (simp add: after_2x2_eval)
  have 8: "shape (cell (snd (snd (snd after_2x2))) 0) = [2, 2]"
    "data (cell (snd (snd (snd after_2x2))) 0) = [1, 2, 0, 0]"
    by (simp_all add: after_2x2_eval)
  have 9: "calibrator (fst (snd after_2x2)) = Some 100" "tc (fst (snd after_2x2)) = mock_target_calib"
    by (simp_all add: after_2x2_eval correction_calibrator_def)
  from channel_0_only[OF 1 2 3 after_2x2_b_call]
  obtain buf h1 d where
    a: "r1_wf (fst (snd after_2x2)) = None \<and> buf = nxt (snd (snd (snd after_2x2))) \<and>
          h1 = snd (alloc (snd (snd (snd after_2x2))) (zeros [2, 2])) \<or>
        r1_wf (fst (snd after_2x2)) = Some buf \<and> h1 = snd (snd (snd after_2x2))"
    and w: "r1_tel (r1 (fst (snd (snd after_2x2_b)))) (telid (fst (snd after_2x2)))
              = Some \<lparr>r1_waveform = Some buf\<rparr>"
    and d: "calibrator (fst (snd after_2x2)) = Some d"
    and s: "shape (cell (snd (snd (snd after_2x2_b))) buf) = shape (cell h1 buf)"
    and f: "data (cell (snd (snd (snd after_2x2_b))) buf) =
             map (fst (ApplyEvent (tc (fst (snd after_2x2))) d
                        \<lparr>shape = tl [2, 2], data = take (prod_list (tl [2, 2])) [111, 112, 113, 114]\<rparr>
                        (first_cell_ids (fst (targetio_tel_getitem event_2x2_b (telid (fst (snd after_2x2))))))
                        \<lparr>shape = tl (shape (cell h1 buf)),
                         data = take (prod_list (tl (shape (cell h1 buf)))) (data (cell h1 buf))\<rparr>))
               [0..<prod_list (tl (shape (cell h1 buf)))]
             @ drop (prod_list (tl (shape (cell h1 buf)))) (data (cell h1 buf))"
    and z: "\<forall>m pedestal tf pe ff self0 h0 events.
              init (Some m) pedestal tf pe ff = Inr self0 \<longrightarrow>
              calibrate_events real_of_int self0 h0 events
                = (fst (snd after_2x2), snd (snd (snd after_2x2))) \<longrightarrow>
              (\<forall>i. prod_list (tl (shape (cell (snd (snd (snd after_2x2_b))) buf))) \<le> i \<and>
                   i < length (data (cell (snd (snd (snd after_2x2_b))) buf))
                 \<longrightarrow> data (cell (snd (snd (snd after_2x2_b))) buf) ! i = 0)"
    by auto
  from a 7 have b: "buf = 0" and h: "h1 = snd (snd (snd after_2x2))" by auto
  from d 9 have d100: "d = 100" by simp
  from s b h 8 have s': "shape (cell (snd (snd (snd after_2x2_b))) 0) = [2, 2]" by simp
  from f b h 8 9 d100 have f': "data (cell (snd (snd (snd after_2x2_b))) 0) = [11, 12, 0, 0]"
    by (simp add: mock_target_calib_def numeral_2_eq_2)
  from z 5 6 have "\<forall>i. prod_list (tl (shape (cell (snd (snd (snd after_2x2_b))) buf))) \<le> i \<and>
                   i < length (data (cell (snd (snd (snd after_2x2_b))) buf))
                 \<longrightarrow> data (cell (snd (snd (snd after_2x2_b))) buf) ! i = 0"
    by blast
  with b s' f' have z2: "data (cell (snd (snd (snd after_2x2_b))) 0) ! 2 = 0"
    and z3: "data (cell (snd (snd (snd after_2x2_b))) 0) ! 3 = 0"
    by simp_all
  from w b have w': "r1_tel (r1 (fst (snd (snd after_2x2_b)))) (telid (fst (snd after_2x2)))
     = Some \<lparr>r1_waveform = Some 0\<rparr>" by simp
  from 1 2 4 5 6 7 8(2) w' s' f' z2 z3 show ?thesis by blast
qed

section \<open>Properties of the container model\<close>

lemma instantiate_extends:
  "\<exists>ext. snd (instantiate d h) = h @ ext"
  "\<exists>ext. snd (instantiate_fields fs h) = h @ ext"
proof (induction d h and fs h rule: instantiate_instantiate_fields.induct)
  case (4 fs h)
  then show ?case by (auto split: prod.splits)
next
  case (6 n d fs h)
  obtain v h1 where i: "instantiate d h = (v, h1)" by (cases "instantiate d h")
  with 6(1) obtain e1 where e1: "h1 = h @ e1" by auto
  from 6(2)[OF i[symmetric]] obtain e2 where "snd (instantiate_fields fs h1) = h1 @ e2" ..
  with i e1 show ?case by (auto split: prod.splits)
qed simp_all

lemma is_default_append:
  "is_default h v d \<Longrightarrow> is_default (h @ ext) v d"
  "fields_default h vs fs \<Longrightarrow> fields_default (h @ ext) vs fs"
proof (induction h v d and h vs fs rule: is_default_fields_default.induct)
  case (4 h v fs)
  then show ?case by (auto simp: nth_append split: val.splits obj.splits)
next
  case (6 h vs n d fs)
  then show ?case by (auto split: list.splits)
qed (auto simp: nth_append split: val.splits)

lemma owned_append:
  "is_default h v d \<Longrightarrow> owned (h @ ext) v d = owned h v d"
  "fields_default h vs fs \<Longrightarrow> owned_fields (h @ ext) vs fs = owned_fields h vs fs"
proof (induction h v d and h vs fs rule: is_default_fields_default.induct)
  case (4 h v fs)
  then show ?case by (auto simp: nth_append split: val.splits obj.splits)
next
  case (6 h vs n d fs)
  then show ?case by (auto split: list.splits)
qed (auto split: val.splits)

lemma instantiate_is_default:
  "is_default (snd (instantiate d h)) (fst (instantiate d h)) d"
  "fields_default (snd (instantiate_fields fs h)) (fst (instantiate_fields fs h)) fs"
proof (induction d h and fs h rule: instantiate_instantiate_fields.induct)
  case (4 fs h)
  obtain vs h' where i: "instantiate_fields fs h = (vs, h')" by (cases "instantiate_fields fs h")
  with 4 have "fields_default h' vs fs" by simp
  then have "fields_default (h' @ [ContainerObj vs]) vs fs" by (rule is_default_append)
  with i show ?case by simp
next
  case (6 n d fs h)
  obtain v h1 where i: "instantiate d h = (v, h1)" by (cases "instantiate d h")
  obtain vs h2 where j: "instantiate_fields fs h1 = (vs, h2)" by (cases "instantiate_fields fs h1")
  from 6(1) i have d1: "is_default h1 v d" by simp
  from 6(2)[OF i[symmetric]] j have d2: "fields_default h2 vs fs" by simp
  from instantiate_extends(2)[of fs h1] j obtain ext where "h2 = h1 @ ext" by auto
  with d1 have "is_default h2 v d" by (simp add: is_default_append)
  with d2 i j show ?case by simp
qed simp_all

lemma instantiate_owned:
  "set (owned (snd (instantiate d h)) (fst (instantiate d h)) d)
     \<subseteq> {length h ..< length (snd (instantiate d h))}"
  "set (owned_fields (snd (instantiate_fields fs h)) (fst (instantiate_fields fs h)) fs)
     \<subseteq> {length h ..< length (snd (instantiate_fields fs h))}"
proof (induction d h and fs h rule: instantiate_instantiate_fields.induct)
  case (4 fs h)
  obtain vs h' where i: "instantiate_fields fs h = (vs, h')" by (cases "instantiate_fields fs h")
  from instantiate_is_default(2)[of fs h] i have "fields_default h' vs fs" by simp
  then have o: "owned_fields (h' @ [ContainerObj vs]) vs fs = owned_fields h' vs fs"
    by (rule owned_append)
  from instantiate_extends(2)[of fs h] i obtain ext where "h' = h @ ext" by auto
  then have "length h \<le> length h'" by simp
  with 4 i o show ?case by auto
next
  case (6 n d fs h)
  obtain v h1 where i: "instantiate d h = (v, h1)" by (cases "instantiate d h")
  obtain vs h2 where j: "instantiate_fields fs h1 = (vs, h2)" by (cases "instantiate_fields fs h1")
  from 6(1) i have o1: "set (owned h1 v d) \<subseteq> {length h ..< length h1}" by simp
  from 6(2)[OF i[symmetric]] j have o2: "set (owned_fields h2 vs fs) \<subseteq> {length h1 ..< length h2}"
    by simp
  from instantiate_is_default(1)[of d h] i have d1: "is_default h1 v d" by simp
  from instantiate_extends(1)[of d h] i obtain e1 where e1: "h1 = h @ e1" by auto
  from instantiate_extends(2)[of fs h1] j obtain e2 where e2: "h2 = h1 @ e2" by auto
  from d1 e2 have "owned h2 v d = owned h1 v d" by (simp add: owned_append)
  with o1 o2 e1 e2 i j show ?case by auto
qed auto

lemma is_default_update:
  "is_default h v d \<Longrightarrow> a \<notin> set (owned h v d) \<Longrightarrow> is_default (h[a := x]) v d"
  "fields_default h vs fs \<Longrightarrow> a \<notin> set (owned_fields h vs fs) \<Longrightarrow> fields_default (h[a := x]) vs fs"
proof (induction h v d and h vs fs rule: is_default_fields_default.induct)
  case (4 h v fs)
  from 4(2) obtain r vs where v: "v = Ref r" and r: "r < length h"
    and c: "h ! r = ContainerObj vs" and f: "fields_default h vs fs"
    by (auto split: val.splits obj.splits)
  from 4(3) v r c have ne: "a \<noteq> r" and o: "a \<notin> set (owned_fields h vs fs)" by auto
  from 4(1)[OF v c f o] have "fields_default (h[a := x]) vs fs" .
  with v r c ne show ?case by simp
next
  case (6 h vs n d fs)
  from 6(3) obtain v vs' where vs: "vs = (n, v) # vs'" and d: "is_default h v d"
    and f: "fields_default h vs' fs"
    by (auto split: list.splits)
  from 6(4) vs have o1: "a \<notin> set (owned h v d)" and o2: "a \<notin> set (owned_fields h vs' fs)"
    by auto
  from 6(1)[OF vs refl d o1] 6(2)[OF vs refl f o2] vs show ?case by simp
next
  case (2 h v)
  then show ?case by (cases v) auto
next
  case (3 h v f)
  then show ?case by (cases v) auto
qed auto

lemma fields_default_lookup:
  "fields_default h vs fs \<Longrightarrow> distinct (map fst fs) \<Longrightarrow> (n, d) \<in> set fs \<Longrightarrow>
     \<exists>v. map_of vs n = Some v \<and> is_default h v d"
proof (induction fs arbitrary: vs)
  case Nil
  then show ?case by simp
next
  case (Cons f fs)
  obtain m e where f: "f = (m, e)" by (cases f)
  with Cons.prems(1) obtain v vs' where vs: "vs = (m, v) # vs'" and dv: "is_default h v e"
    and r: "fields_default h vs' fs"
    by (auto split: list.splits)
  show ?case
  proof (cases "n = m")
    case True
    with Cons.prems(2,3) f have "d = e" by (auto simp: image_iff)
    with True vs dv show ?thesis by simp
  next
    case False
    with Cons.prems(2,3) f have "distinct (map fst fs)" "(n, d) \<in> set fs" by auto
    from Cons.IH[OF r this] False vs show ?thesis by simp
  qed
qed

lemma reset_default:
  assumes "a < length h" and "distinct (map fst fs)" and "(n, d) \<in> set fs"
  shows "\<exists>v. getattr (reset fs a h) a n = Some v \<and> is_default (reset fs a h) v d"
proof -
  obtain vs h' where i: "instantiate_fields fs h = (vs, h')" by (cases "instantiate_fields fs h")
  from instantiate_extends(2)[of fs h] i obtain ext where e: "h' = h @ ext" by auto
  with assms(1) have a: "a < length h'" by simp
  from instantiate_is_default(2)[of fs h] i have fd: "fields_default h' vs fs" by simp
  from instantiate_owned(2)[of fs h] i assms(1) have "a \<notin> set (owned_fields h' vs fs)" by auto
  from is_default_update(2)[OF fd this]
  have "fields_default (h'[a := ContainerObj vs]) vs fs" .
  from fields_default_lookup[OF this assms(2,3)]
  obtain v where "map_of vs n = Some v" "is_default (h'[a := ContainerObj vs]) v d" by blast
  with i a show ?thesis by (auto simp: reset_def getattr_def)
qed

lemma two_instances_disjoint:
  assumes "instantiate d1 h = (c1, h1)" and "instantiate d2 h1 = (c2, h2)"
  shows "set (owned h2 c1 d1) \<inter> set (owned h2 c2 d2) = {}"
    and "is_default h2 c1 d1" and "is_default h2 c2 d2"
proof -
  from instantiate_is_default(1)[of d1 h] assms(1) have i1: "is_default h1 c1 d1" by simp
  from instantiate_is_default(1)[of d2 h1] assms(2) show i2: "is_default h2 c2 d2" by simp
  from instantiate_extends(1)[of d2 h1] assms(2) obtain ext where e: "h2 = h1 @ ext" by auto
  with i1 show "is_default h2 c1 d1" by (simp add: is_default_append)
  from i1 e have "owned h2 c1 d1 = owned h1 c1 d1" by (simp add: owned_append)
  moreover from instantiate_owned(1)[of d1 h] assms(1)
  have "set (owned h1 c1 d1) \<subseteq> {length h ..< length h1}" by simp
  moreover from instantiate_owned(1)[of d2 h1] assms(2)
  have "set (owned h2 c2 d2) \<subseteq> {length h1 ..< length h2}" by simp
  moreover have "{length h ..< length h1} \<inter> {length h1 ..< length h2} = {}" by auto
  ultimately show "set (owned h2 c1 d1) \<inter> set (owned h2 c2 d2) = {}"
    by (metis disjoint_iff subsetD)
qed

lemmas declared_defs = TargetIODataContainer_declared_def DataContainer_declared_def
  RawDataContainer_declared_def CalibratedContainer_declared_def
  ReconstructedContainer_declared_def MCEventContainer_declared_def
  CentralTriggerContainer_declared_def InstrumentContainer_declared_def
  TargetIOContainer_declared_def

lemma first_event_eval:
  "fst first_event = Ref 24 \<and> length (snd first_event) = 25 \<and>
   snd first_event ! 24 =
     ContainerObj
       [(''dl0'', Ref 2), (''dl1'', Ref 4), (''dl2'', Ref 8), (''mc'', Ref 10),
        (''mcheader'', Val (PyClass ''MCHeaderContainer'')), (''trig'', Ref 12),
        (''count'', Val (PyInt 0)), (''inst'', Ref 21), (''targetio'', Ref 23)]"
  by (simp add: first_event_def declared_defs)

lemma second_event_eval: "fst second_event = Ref 49"
proof -
  have "length (snd (instantiate_fields TargetIODataContainer_declared (snd first_event)))
          = length (snd first_event) + 24"
    by (simp add: declared_defs split: prod.splits)
  with first_event_eval
  have "length (snd (instantiate_fields TargetIODataContainer_declared (snd first_event))) = 49"
    by simp
  then show ?thesis
    by (auto simp: second_event_def split: prod.splits)
qed

text \<open>
  C10. Two container instances constructed one after the other share none of their mutable
  field defaults: the objects the first is made of (itself, its nested containers, maps
  and lists) and those of the second are disjoint sets of the store, and both hold their
  declared defaults. And for every container, after \<open>reset\<close> reading any declared field
  gives a value that is that field's declared default. (Field names are distinct, as the
  attributes of a class are.)
\<close>

theorem fresh_defaults:
  assumes "instantiate (Instance fs1) h = (c1, h1)"
    and "instantiate (Instance fs2) h1 = (c2, h2)"
    and "a < length h0" and "h0 ! a = ContainerObj vs0"
    and "distinct (map fst fs)" and "(n, d) \<in> set fs"
  shows "set (owned h2 c1 (Instance fs1)) \<inter> set (owned h2 c2 (Instance fs2)) = {} \<and>
         is_default h2 c1 (Instance fs1) \<and> is_default h2 c2 (Instance fs2) \<and>
         (\<exists>v. getattr (reset fs a h0) a n = Some v \<and> is_default (reset fs a h0) v d)"
proof -
  have "set (owned h2 c1 (Instance fs1)) \<inter> set (owned h2 c2 (Instance fs2)) = {}"
    by (rule two_instances_disjoint(1)[OF assms(1) assms(2)])
  moreover have "is_default h2 c1 (Instance fs1)"
    by (rule two_instances_disjoint(2)[OF assms(1) assms(2)])
  moreover have "is_default h2 c2 (Instance fs2)"
    by (rule two_instances_disjoint(3)[OF assms(1) assms(2)])
  moreover have "\<exists>v. getattr (reset fs a h0) a n = Some v \<and> is_default (reset fs a h0) v d"
    by (rule reset_default[OF assms(3) assms(5) assms(6)])
  ultimately show ?thesis by blast
qed

theorem fresh_defaults_witness:
  "instantiate (Instance TargetIODataContainer_declared) [] = (Ref 24, snd first_event) \<and>
   instantiate (Instance TargetIODataContainer_declared) (snd first_event)
     = (Ref 49, snd second_event) \<and>
   24 < length (snd first_event) \<and>
   snd first_event ! 24 =
     ContainerObj
       [(''dl0'', Ref 2), (''dl1'', Ref 4), (''dl2'', Ref 8), (''mc'', Ref 10),
        (''mcheader'', Val (PyClass ''MCHeaderContainer'')), (''trig'', Ref 12),
        (''count'', Val (PyInt 0)), (''inst'', Ref 21), (''targetio'', Ref 23)] \<and>
   distinct (map fst TargetIODataContainer_declared) \<and>
   (''targetio'', Instance TargetIOContainer_declared) \<in> set TargetIODataContainer_declared \<and>
   set (owned (snd second_event) (Ref 24) (Instance TargetIODataContainer_declared))
     \<inter> set (owned (snd second_event) (Ref 49) (Instance TargetIODataContainer_declared)) = {} \<and>
   (\<exists>v. getattr (reset TargetIODataContainer_declared 24 (snd first_event)) 24 ''targetio'' = Some v \<and>
        is_default (reset TargetIODataContainer_declared 24 (snd first_event)) v
          (Instance TargetIOContainer_declared))"
proof -
  have 1: "instantiate (Instance TargetIODataContainer_declared) [] = (Ref 24, snd first_event)"
    using first_event_eval by (simp add: first_event_def prod_eq_iff)
  have 2: "instantiate (Instance TargetIODataContainer_declared) (snd first_event)
             = (Ref 49, snd second_event)"
    using second_event_eval by (simp add: second_event_def prod_eq_iff)
  have 3: "24 < length (snd first_event)" using first_event_eval by simp
  have 4: "snd first_event ! 24 =
     ContainerObj
       [(''dl0'', Ref 2), (''dl1'', Ref 4), (''dl2'', Ref 8), (''mc'', Ref 10),
        (''mcheader'', Val (PyClass ''MCHeaderContainer'')), (''trig'', Ref 12),
        (''count'', Val (PyInt 0)), (''inst'', Ref 21), (''targetio'', Ref 23)]"
    using first_event_eval by simp
  have 5: "distinct (map fst TargetIODataContainer_declared)"
    by (simp add: TargetIODataContainer_declared_def DataContainer_declared_def)
  have 6: "(''targetio'', Instance TargetIOContainer_declared) \<in> set TargetIODataContainer_declared"
    by (simp add: TargetIODataContainer_declared_def)
  from fresh_defaults[OF 1 2 3 4 5 6] 1 2 3 4 5 6 show ?thesis by blast
qed

end
